theory Spec2Isabelle
  imports Main "HOL-Library.Char_ord" "HOL-Library.List_Lexorder"
begin

section \<open>nvkind: cluster handles, configuration reconciliation and node resolution\<close>

text \<open>
  A shallow embedding of \<^verbatim>\<open>pkg/nvkind/cluster.go\<close>. Go strings are byte strings and are
  modelled as \<^typ>\<open>string\<close>. Everything the package calls outside itself (child processes,
  the Kubernetes client, the YAML codec, the home directory) is a field of the record
  \<open>env\<close>; what the package changes outside itself (the ConfigMap store) is the record
  \<open>world\<close>, passed through every function that touches it together with the trace of the
  requests made so far.
\<close>

subsection \<open>Errors\<close>

text \<open>
  Go's \<^verbatim>\<open>error\<close> values. \<open>New msg\<close> is \<^verbatim>\<open>fmt.Errorf\<close> with a format that has no
  \<^verbatim>\<open>%w\<close> verb (the message is the formatted text). \<open>Errorf ctx err\<close> is
  \<^verbatim>\<open>fmt.Errorf("ctx: %w", err)\<close>; its operand is an interface value that may be
  \<^verbatim>\<open>nil\<close>, hence an option. \<open>StatusError\<close> is an error answered by the Kubernetes API,
  \<open>External\<close> any other error value made outside the package. \<open>Panic\<close> is not an
  error value but a run-time panic, which ends the call.
\<close>

datatype StatusReason = NotFound | AlreadyExists | Conflict | Unavailable

datatype error =
    New string
  | Errorf string "error option"
  | StatusError StatusReason
  | External string
  | Panic string

text \<open>\<^verbatim>\<open>err.Error()\<close>: the text of an error. A nil operand of \<^verbatim>\<open>%w\<close> prints as
  \<^verbatim>\<open>%!w(<nil>)\<close>.\<close>

fun reason_text :: "StatusReason \<Rightarrow> string" where
  "reason_text NotFound = ''NotFound''"
| "reason_text AlreadyExists = ''AlreadyExists''"
| "reason_text Conflict = ''Conflict''"
| "reason_text Unavailable = ''ServiceUnavailable''"

fun Error :: "error \<Rightarrow> string" where
  "Error (New msg) = msg"
| "Error (Errorf ctx None) = ctx @ '': %!w(<nil>)''"
| "Error (Errorf ctx (Some err)) = ctx @ '': '' @ Error err"
| "Error (StatusError r) = reason_text r"
| "Error (External msg) = msg"
| "Error (Panic msg) = ''panic: '' @ msg"

text \<open>\<^verbatim>\<open>errors.Unwrap\<close>, and the chain of errors it reaches (what \<^verbatim>\<open>errors.Is\<close> and
  \<^verbatim>\<open>errors.As\<close> search).\<close>

fun Unwrap :: "error \<Rightarrow> error option" where
  "Unwrap (Errorf ctx err) = err"
| "Unwrap (New msg) = None"
| "Unwrap (StatusError r) = None"
| "Unwrap (External msg) = None"
| "Unwrap (Panic msg) = None"

fun chain :: "error \<Rightarrow> error list" where
  "chain (Errorf ctx (Some err)) = Errorf ctx (Some err) # chain err"
| "chain (Errorf ctx None) = [Errorf ctx None]"
| "chain (New msg) = [New msg]"
| "chain (StatusError r) = [StatusError r]"
| "chain (External msg) = [External msg]"
| "chain (Panic msg) = [Panic msg]"

text \<open>\<^verbatim>\<open>apierrors.IsConflict\<close>: the first API status of the chain has the reason Conflict.\<close>

fun ReasonForError :: "error \<Rightarrow> StatusReason option" where
  "ReasonForError (StatusError r) = Some r"
| "ReasonForError (Errorf ctx (Some err)) = ReasonForError err"
| "ReasonForError (Errorf ctx None) = None"
| "ReasonForError (New msg) = None"
| "ReasonForError (External msg) = None"
| "ReasonForError (Panic msg) = None"

definition IsConflict :: "error \<Rightarrow> bool" where
  "IsConflict err = (ReasonForError err = Some Conflict)"

subsection \<open>Strings\<close>

text \<open>
  The functions of the packages \<^verbatim>\<open>strings\<close>, \<^verbatim>\<open>unicode\<close> and \<^verbatim>\<open>sort\<close> that the
  file calls, on ASCII text (the names that \<^verbatim>\<open>kind\<close> prints): there
  \<^verbatim>\<open>unicode.IsDigit\<close> holds of \<^verbatim>\<open>0\<close> to \<^verbatim>\<open>9\<close> and \<^verbatim>\<open>strings.Fields\<close> splits
  around tab, line feed, vertical tab, form feed, carriage return and space. Bytes from
  0x80 on are neither digits nor spaces here.
\<close>

definition IsDigit :: "char \<Rightarrow> bool" where
  "IsDigit c = (CHR ''0'' \<le> c \<and> c \<le> CHR ''9'')"

definition asciiSpace :: "char \<Rightarrow> bool" where
  "asciiSpace c = (c \<in> set [CHR 0x09, CHR 0x0A, CHR 0x0B, CHR 0x0C, CHR 0x0D, CHR 0x20])"

text \<open>\<^verbatim>\<open>strings.Fields\<close>: \<open>cur\<close> is the field being read.\<close>

fun fields_from :: "string \<Rightarrow> string \<Rightarrow> string list" where
  "fields_from cur [] = (if cur = [] then [] else [cur])"
| "fields_from cur (c # cs) =
     (if asciiSpace c then (if cur = [] then fields_from [] cs else cur # fields_from [] cs)
      else fields_from (cur @ [c]) cs)"

definition Fields :: "string \<Rightarrow> string list" where
  "Fields s = fields_from [] s"

text \<open>\<^verbatim>\<open>strings.TrimRightFunc\<close>: the string without its longest suffix of characters
  that satisfy \<open>f\<close>.\<close>

definition TrimRightFunc :: "string \<Rightarrow> (char \<Rightarrow> bool) \<Rightarrow> string" where
  "TrimRightFunc s f = rev (dropWhile f (rev s))"

text \<open>\<^verbatim>\<open>strings.HasSuffix\<close>:
  \<^verbatim>\<open>len(s) >= len(suffix) && s[len(s)-len(suffix):] == suffix\<close>.\<close>

definition HasSuffix :: "string \<Rightarrow> string \<Rightarrow> bool" where
  "HasSuffix s suffix =
     (length s \<ge> length suffix \<and> drop (length s - length suffix) s = suffix)"

text \<open>\<^verbatim>\<open>sort.Strings\<close>: increasing order, strings compared byte by byte.\<close>

definition sort_Strings :: "string list \<Rightarrow> string list" where
  "sort_Strings xs = sort xs"

subsection \<open>The configuration document\<close>

text \<open>
  \<^verbatim>\<open>kind.Cluster\<close> and \<^verbatim>\<open>kind.Node\<close> (package
  \<^verbatim>\<open>sigs.k8s.io/kind/pkg/apis/config/v1alpha4\<close>). The file reads and writes the cluster's
  \<^verbatim>\<open>Name\<close> and \<^verbatim>\<open>Nodes\<close> and a node's \<^verbatim>\<open>Role\<close>; the other fields of each
  struct are carried as one value. A Go slice is \<^verbatim>\<open>nil\<close> or a sequence, and
  \<^verbatim>\<open>reflect.DeepEqual\<close> tells a nil slice from an empty one, so \<open>Nodes\<close> is an option.
  With that, \<^verbatim>\<open>reflect.DeepEqual\<close> on two documents is equality of the records.
\<close>

type_synonym NodeRole = string

definition ControlPlaneRole :: NodeRole where
  "ControlPlaneRole = ''control-plane''"

definition WorkerRole :: NodeRole where
  "WorkerRole = ''worker''"

record kind_Node =
  Role :: NodeRole
  NodeSpec :: string

record kind_Cluster =
  Name :: string
  Nodes :: "kind_Node list option"
  ClusterSpec :: string

text \<open>The elements of a slice, as \<^verbatim>\<open>range\<close> visits them (none for a nil slice).\<close>

fun elems :: "'a list option \<Rightarrow> 'a list" where
  "elems None = []"
| "elems (Some xs) = xs"

text \<open>
  \<^verbatim>\<open>Config\<close> (declared in the package's \<^verbatim>\<open>config.go\<close>): the embedded
  \<^verbatim>\<open>*kind.Cluster\<close> and the handles of the NVML library and of the two output
  streams, which are only ever copied and are numbered here.
\<close>

record Config =
  Cluster :: kind_Cluster
  nvml :: nat
  stdout :: nat
  stderr :: nat

datatype ConfigOption = WithConfigTemplate string

record ClusterOptions =
  opt_name :: string
  opt_config :: "Config option"
  opt_kubeconfig :: string

record Cluster =
  cluster_Name :: string
  cluster_config :: kind_Cluster
  cluster_kubeconfig :: string
  cluster_nvml :: nat
  cluster_stdout :: nat
  cluster_stderr :: nat

record ClusterCreateOptions =
  retain :: bool
  wait :: int

text \<open>
  A resolved node. Its \<open>node_config\<close> is a \<^verbatim>\<open>*kind.Node\<close>: an address in the heap
  of node objects below.
\<close>

record Node =
  node_Name :: string
  node_config :: nat
  node_nvml :: nat
  node_stdout :: nat
  node_stderr :: nat

subsection \<open>The outside world\<close>

text \<open>
  The requests the package makes. The answer to a request may depend on everything
  requested before it, so the collaborators of \<open>env\<close> take the trace.
\<close>

record ConfigMap =
  ObjectMeta_Name :: string
  Data :: "(string \<times> string) list"

datatype event =
    Exec "string list" string
  | ConfigMapsGet nat string string
  | ConfigMapsCreate nat string ConfigMap

record world =
  configmaps :: "((nat \<times> string \<times> string) \<times> (string \<times> string) list) list"
  trace :: "event list"

record env =
  command_result :: "event list \<Rightarrow> error + string"
  HomeDir :: string
  Duration_String :: "int \<Rightarrow> string"
  yaml_Marshal :: "kind_Cluster \<Rightarrow> error + string"
  yaml_Unmarshal :: "string \<Rightarrow> error + kind_Cluster"
  NewConfig :: "ConfigOption list \<Rightarrow> error + Config"
  ClientConfig :: "event list \<Rightarrow> string \<Rightarrow> error + nat"
  NewForConfig :: "nat \<Rightarrow> error + nat"
  api_fault :: "event list \<Rightarrow> error option"

text \<open>
  \<^verbatim>\<open>exec.Command(command[0], command[1:]...)\<close> run to its end with the given standard
  input: the error of \<^verbatim>\<open>Run\<close> or \<^verbatim>\<open>CombinedOutput\<close>, or the output. The trace
  handed to \<open>command_result\<close> ends with this very command.
\<close>

definition run :: "env \<Rightarrow> string list \<Rightarrow> string \<Rightarrow> world \<Rightarrow> (error + string) \<times> world" where
  "run env command stdin w =
     (let w' = w\<lparr>trace := trace w @ [Exec command stdin]\<rparr>
      in (command_result env (trace w'), w'))"

text \<open>
  The ConfigMap client of one cluster (\<open>clientset\<close>). A request that the API server
  does not fail for a reason of its own (\<open>api_fault\<close>) reads or extends the store:
  \<^verbatim>\<open>Get\<close> of an absent object is NotFound, \<^verbatim>\<open>Create\<close> of a present one is
  AlreadyExists.
\<close>

definition ConfigMaps_Get ::
  "env \<Rightarrow> nat \<Rightarrow> string \<Rightarrow> string \<Rightarrow> world \<Rightarrow> (error + ConfigMap) \<times> world" where
  "ConfigMaps_Get env clientset namespace nm w =
     (let w' = w\<lparr>trace := trace w @ [ConfigMapsGet clientset namespace nm]\<rparr>
      in case api_fault env (trace w') of
           Some err \<Rightarrow> (Inl err, w')
         | None \<Rightarrow>
             (case map_of (configmaps w') (clientset, namespace, nm) of
                None \<Rightarrow> (Inl (StatusError NotFound), w')
              | Some d \<Rightarrow> (Inr \<lparr>ObjectMeta_Name = nm, Data = d\<rparr>, w')))"

definition ConfigMaps_Create ::
  "env \<Rightarrow> nat \<Rightarrow> string \<Rightarrow> ConfigMap \<Rightarrow> world \<Rightarrow> error option \<times> world" where
  "ConfigMaps_Create env clientset namespace configMap w =
     (let w' = w\<lparr>trace := trace w @ [ConfigMapsCreate clientset namespace configMap]\<rparr>;
          key = (clientset, namespace, ObjectMeta_Name configMap)
      in case api_fault env (trace w') of
           Some err \<Rightarrow> (Some err, w')
         | None \<Rightarrow>
             (case map_of (configmaps w') key of
                Some d \<Rightarrow> (Some (StatusError AlreadyExists), w')
              | None \<Rightarrow> (None, w'\<lparr>configmaps := configmaps w' @ [(key, Data configMap)]\<rparr>)))"

text \<open>
  \<^verbatim>\<open>retry.RetryOnConflict\<close> of \<^verbatim>\<open>k8s.io/client-go/util/retry\<close>: \<open>fn\<close> is called until
  it succeeds, fails with an error that is not a conflict, or has been called \<open>steps\<close>
  times; then the last conflict is the result. \<^verbatim>\<open>retry.DefaultRetry\<close> has 5 steps. The
  pauses between the calls are not modelled.
\<close>

fun OnError ::
  "nat \<Rightarrow> (error \<Rightarrow> bool) \<Rightarrow> (world \<Rightarrow> error option \<times> world) \<Rightarrow> error option \<Rightarrow> world
     \<Rightarrow> error option \<times> world" where
  "OnError 0 retriable fn lastErr w = (lastErr, w)"
| "OnError (Suc n) retriable fn lastErr w =
     (case fn w of
        (None, w') \<Rightarrow> (None, w')
      | (Some err, w') \<Rightarrow>
          if retriable err then OnError n retriable fn (Some err) w' else (Some err, w'))"

definition DefaultRetry :: nat where
  "DefaultRetry = 5"

definition RetryOnConflict ::
  "nat \<Rightarrow> (world \<Rightarrow> error option \<times> world) \<Rightarrow> world \<Rightarrow> error option \<times> world" where
  "RetryOnConflict backoff fn w = OnError backoff IsConflict fn None w"

subsection \<open>The package's functions\<close>

definition nvkindClusterConfigName :: string where
  "nvkindClusterConfigName = ''nvkind-cluster-config''"

text \<open>\<^verbatim>\<open>GetClusterNames\<close>: the names that \<^verbatim>\<open>kind get clusters -q\<close> prints, as a set.\<close>

definition GetClusterNames :: "env \<Rightarrow> world \<Rightarrow> (error + string set) \<times> world" where
  "GetClusterNames env w =
     (let command = [''kind'', ''get'', ''clusters'', ''-q'']
      in case run env command [] w of
           (Inl err, w') \<Rightarrow> (Inl (Errorf ''executing command'' (Some err)), w')
         | (Inr output, w') \<Rightarrow> (Inr (set (Fields output)), w'))"

text \<open>Reading a Go map: a missing key gives the zero value, the empty string.\<close>

definition map_index :: "(string \<times> string) list \<Rightarrow> string \<Rightarrow> string" where
  "map_index m k = (case map_of m k of None \<Rightarrow> [] | Some v \<Rightarrow> v)"

definition getConfigBytesFromExistingCluster ::
  "env \<Rightarrow> string \<Rightarrow> world \<Rightarrow> (error + string) \<times> world" where
  "getConfigBytesFromExistingCluster env name w =
     (case ClientConfig env (trace w) (''kind-'' @ name) of
        Inl err \<Rightarrow> (Inl (Errorf ''loading client config'' (Some err)), w)
      | Inr csconfig \<Rightarrow>
          (case NewForConfig env csconfig of
             Inl err \<Rightarrow> (Inl (Errorf ''creating clientset'' (Some err)), w)
           | Inr clientset \<Rightarrow>
               (case ConfigMaps_Get env clientset ''default'' nvkindClusterConfigName w of
                  (Inl err, w') \<Rightarrow> (Inl (Errorf ''getting configmap'' (Some err)), w')
                | (Inr configMap, w') \<Rightarrow> (Inr (map_index (Data configMap) ''config''), w'))))"

text \<open>
  \<^verbatim>\<open>addConfigBytesToExistingCluster\<close>. The variable \<open>err\<close> is the function's own
  \<^verbatim>\<open>err\<close>, last assigned by \<^verbatim>\<open>kubernetes.NewForConfig\<close> and nil once the check after
  it has passed; the closure handed to \<^verbatim>\<open>RetryOnConflict\<close> declares an \<^verbatim>\<open>err\<close> of
  its own. The result of the retries is \<open>retryErr\<close>.
\<close>

definition addConfigBytesToExistingCluster ::
  "env \<Rightarrow> string \<Rightarrow> string \<Rightarrow> world \<Rightarrow> error option \<times> world" where
  "addConfigBytesToExistingCluster env name configBytes w =
     (case ClientConfig env (trace w) (''kind-'' @ name) of
        Inl err \<Rightarrow> (Some (Errorf ''loading client config'' (Some err)), w)
      | Inr csconfig \<Rightarrow>
          (case NewForConfig env csconfig of
             Inl err \<Rightarrow> (Some (Errorf ''creating clientset'' (Some err)), w)
           | Inr clientset \<Rightarrow>
               (let err = None;
                    configMap = \<lparr>ObjectMeta_Name = nvkindClusterConfigName,
                                 Data = [(''config'', configBytes)]\<rparr>;
                    (retryErr, w') =
                       RetryOnConflict DefaultRetry
                         (ConfigMaps_Create env clientset ''default'' configMap) w
                in if retryErr \<noteq> None then (Some (Errorf ''writing configmap'' err), w')
                   else (None, w'))))"

text \<open>
  \<^verbatim>\<open>setConfig\<close>, a method on \<^verbatim>\<open>*ClusterOptions\<close>: the options after the call are part
  of the result. \<^verbatim>\<open>NewConfig\<close> is declared in the package's \<^verbatim>\<open>config.go\<close> and is a
  collaborator here.
\<close>

definition setConfig :: "env \<Rightarrow> ClusterOptions \<Rightarrow> world \<Rightarrow> (error + ClusterOptions) \<times> world" where
  "setConfig env o0 w =
     (case GetClusterNames env w of
        (Inl err, w1) \<Rightarrow> (Inl (Errorf ''getting list of existing clusters'' (Some err)), w1)
      | (Inr existingClusters, w1) \<Rightarrow>
          (let o1 = (case opt_config o0 of
                       Some config \<Rightarrow>
                         if opt_name o0 \<noteq> []
                         then o0\<lparr>opt_config :=
                                   Some (config\<lparr>Cluster := (Cluster config)\<lparr>Name := opt_name o0\<rparr>\<rparr>)\<rparr>
                         else o0
                     | None \<Rightarrow> o0);
               finish = (\<lambda>options w'.
                          case NewConfig env options of
                            Inl err \<Rightarrow> (Inl (Errorf ''creating new config'' (Some err)), w')
                          | Inr config \<Rightarrow> (Inr (o1\<lparr>opt_config := Some config\<rparr>), w'))
           in if opt_name o1 \<notin> existingClusters \<and> opt_config o1 \<noteq> None then (Inr o1, w1)
              else if opt_name o1 \<in> existingClusters then
                (case getConfigBytesFromExistingCluster env (opt_name o1) w1 of
                   (Inl err, w2) \<Rightarrow> (Inl (Errorf ''getting config bytes'' (Some err)), w2)
                 | (Inr existingConfigBytes, w2) \<Rightarrow>
                     (case opt_config o1 of
                        Some config \<Rightarrow>
                          (case yaml_Unmarshal env existingConfigBytes of
                             Inl err \<Rightarrow> (Inl (Errorf ''unmarshaling YAML'' (Some err)), w2)
                           | Inr existingConfig \<Rightarrow>
                               if existingConfig \<noteq> Cluster config
                               then (Inl (New ''cannot pass new config to existing cluster''), w2)
                               else (Inr o1, w2))
                      | None \<Rightarrow> finish [WithConfigTemplate existingConfigBytes] w2))
              else finish [] w1))"

text \<open>
  \<^verbatim>\<open>NewCluster\<close>. A \<^verbatim>\<open>ClusterOption\<close> is a function that updates the options. After
  \<^verbatim>\<open>setConfig\<close> the code reads through \<^verbatim>\<open>o.config\<close>, which panics on nil.
\<close>

definition NewCluster ::
  "env \<Rightarrow> (ClusterOptions \<Rightarrow> ClusterOptions) list \<Rightarrow> world \<Rightarrow> (error + Cluster) \<times> world" where
  "NewCluster env opts w =
     (let o0 = fold (\<lambda>opt o'. opt o') opts
                 \<lparr>opt_name = [], opt_config = None, opt_kubeconfig = []\<rparr>
      in case setConfig env o0 w of
           (Inl err, w') \<Rightarrow> (Inl (Errorf ''setting config'' (Some err)), w')
         | (Inr o1, w') \<Rightarrow>
             (case opt_config o1 of
                None \<Rightarrow> (Inl (Panic ''nil pointer dereference''), w')
              | Some config \<Rightarrow>
                  (let o2 = (if opt_name o1 = [] then o1\<lparr>opt_name := Name (Cluster config)\<rparr> else o1);
                       o3 = (if opt_kubeconfig o2 = [] \<and> HomeDir env \<noteq> []
                             then o2\<lparr>opt_kubeconfig := HomeDir env @ ''/.kube/config''\<rparr> else o2)
                   in (Inr \<lparr>cluster_Name = opt_name o3,
                            cluster_config = Cluster config,
                            cluster_kubeconfig = opt_kubeconfig o3,
                            cluster_nvml = nvml config,
                            cluster_stdout = stdout config,
                            cluster_stderr = stderr config\<rparr>, w'))))"

text \<open>\<^verbatim>\<open>Create\<close>: the configuration goes to \<^verbatim>\<open>kind create cluster\<close> on its standard
  input, then to the store.\<close>

definition Create ::
  "env \<Rightarrow> Cluster \<Rightarrow> (ClusterCreateOptions \<Rightarrow> ClusterCreateOptions) list \<Rightarrow> world
     \<Rightarrow> error option \<times> world" where
  "Create env c opts w =
     (let command = [''kind'', ''create'', ''cluster'', ''--name'', cluster_Name c, ''--config'', ''-''];
          o' = fold (\<lambda>opt o'. opt o') opts \<lparr>retain = False, wait = 0\<rparr>;
          command = (if retain o' then command @ [''--retain''] else command);
          command = (if wait o' \<noteq> 0 then command @ [''--wait'', Duration_String env (wait o')]
                     else command)
      in case yaml_Marshal env (cluster_config c) of
           Inl err \<Rightarrow> (Some (Errorf ''marshaling YAML'' (Some err)), w)
         | Inr configBytes \<Rightarrow>
             (case run env command configBytes w of
                (Inl err, w') \<Rightarrow> (Some (Errorf ''executing command'' (Some err)), w')
              | (Inr output, w') \<Rightarrow>
                  (case addConfigBytesToExistingCluster env (cluster_Name c) configBytes w' of
                     (Some err, w'') \<Rightarrow> (Some (Errorf ''adding config to cluster'' (Some err)), w'')
                   | (None, w'') \<Rightarrow> (None, w''))))"

subsection \<open>Node resolution\<close>

text \<open>
  \<^verbatim>\<open>GetNodes\<close> takes addresses of node objects, so the node objects live in a heap: a
  list, an address being an index. The heap starts as the backing array of
  \<^verbatim>\<open>c.config.Nodes\<close> (address \<open>i\<close> is \<^verbatim>\<open>&c.config.Nodes[i]\<close>) and grows by
  allocation. The variable of a \<^verbatim>\<open>range\<close> loop is a new variable in every iteration
  (Go 1.22 and later), and \<^verbatim>\<open>&node\<close> makes it a heap object. \<^verbatim>\<open>DeepCopy\<close> of a
  \<^verbatim>\<open>*kind.Node\<close> allocates a node with the same contents.
\<close>

type_synonym heap = "kind_Node list"

definition new :: "heap \<Rightarrow> kind_Node \<Rightarrow> nat \<times> heap" where
  "new h v = (length h, h @ [v])"

definition DeepCopy :: "heap \<Rightarrow> nat \<Rightarrow> nat \<times> heap" where
  "DeepCopy h p = new h (h ! p)"

text \<open>The first loop: the sorted names by role. A Go map read gives the nil slice for
  a missing key, so the map is a function with the empty list everywhere at first.\<close>

fun nodeNames_loop ::
  "string list \<Rightarrow> (NodeRole \<Rightarrow> string list) \<Rightarrow> error + (NodeRole \<Rightarrow> string list)" where
  "nodeNames_loop [] nodeNames = Inr nodeNames"
| "nodeNames_loop (node # rest) nodeNames =
     (let trimmed = TrimRightFunc node IsDigit
      in if HasSuffix trimmed ControlPlaneRole
         then nodeNames_loop rest
                (nodeNames(ControlPlaneRole := nodeNames ControlPlaneRole @ [node]))
         else if HasSuffix trimmed WorkerRole
         then nodeNames_loop rest (nodeNames(WorkerRole := nodeNames WorkerRole @ [node]))
         else Inl (New (''unable to determine node role from name: '' @ node)))"

text \<open>The second loop: the addresses of the iterations' variables by role.\<close>

fun nodeConfigs_loop ::
  "kind_Node list \<Rightarrow> heap \<Rightarrow> (NodeRole \<Rightarrow> nat list) \<Rightarrow> error + (NodeRole \<Rightarrow> nat list) \<times> heap" where
  "nodeConfigs_loop [] h nodeConfigs = Inr (nodeConfigs, h)"
| "nodeConfigs_loop (v # rest) h nodeConfigs =
     (let (node, h') = new h v
      in if Role (h' ! node) = ControlPlaneRole
         then nodeConfigs_loop rest h'
                (nodeConfigs(Role (h' ! node) := nodeConfigs (Role (h' ! node)) @ [node]))
         else if Role (h' ! node) = WorkerRole
         then nodeConfigs_loop rest h'
                (nodeConfigs(Role (h' ! node) := nodeConfigs (Role (h' ! node)) @ [node]))
         else Inl (New (''unknown node role: '' @ Role (h' ! node))))"

text \<open>The third loop. Its body runs once per name of the role, reading the name and the
  address at the same index; the two lists have the same length there.\<close>

fun nodes_inner ::
  "Cluster \<Rightarrow> string list \<Rightarrow> nat list \<Rightarrow> heap \<Rightarrow> Node list \<Rightarrow> Node list \<times> heap" where
  "nodes_inner c (nm # names) (p # ps) h nodes =
     (let (q, h') = DeepCopy h p;
          node = \<lparr>node_Name = nm, node_config = q, node_nvml = cluster_nvml c,
                  node_stdout = cluster_stdout c, node_stderr = cluster_stderr c\<rparr>
      in nodes_inner c names ps h' (nodes @ [node]))"
| "nodes_inner c [] ps h nodes = (nodes, h)"
| "nodes_inner c names [] h nodes = (nodes, h)"

fun nodes_loop ::
  "Cluster \<Rightarrow> NodeRole list \<Rightarrow> (NodeRole \<Rightarrow> string list) \<Rightarrow> (NodeRole \<Rightarrow> nat list) \<Rightarrow> heap
     \<Rightarrow> Node list \<Rightarrow> error + Node list \<times> heap" where
  "nodes_loop c [] nodeNames nodeConfigs h nodes = Inr (nodes, h)"
| "nodes_loop c (role # roles) nodeNames nodeConfigs h nodes =
     (if length (nodeNames role) \<noteq> length (nodeConfigs role)
      then Inl (New (''node names and configs mismatch for '' @ role @ '' role''))
      else (let (nodes', h') = nodes_inner c (nodeNames role) (nodeConfigs role) h nodes
            in nodes_loop c roles nodeNames nodeConfigs h' nodes'))"

text \<open>\<^verbatim>\<open>GetNodes\<close>: the resolved nodes, and the heap their addresses point into.\<close>

definition GetNodes :: "env \<Rightarrow> Cluster \<Rightarrow> world \<Rightarrow> (error + Node list \<times> heap) \<times> world" where
  "GetNodes env c w =
     (let command = [''kind'', ''get'', ''nodes'', ''--name'', cluster_Name c]
      in case run env command [] w of
           (Inl err, w') \<Rightarrow> (Inl (Errorf ''executing command'' (Some err)), w')
         | (Inr output, w') \<Rightarrow>
             (let nodeNamesList = sort_Strings (Fields output)
              in case nodeNames_loop nodeNamesList (\<lambda>role. []) of
                   Inl err \<Rightarrow> (Inl err, w')
                 | Inr nodeNames \<Rightarrow>
                     (case nodeConfigs_loop (elems (Nodes (cluster_config c)))
                             (elems (Nodes (cluster_config c))) (\<lambda>role. []) of
                        Inl err \<Rightarrow> (Inl err, w')
                      | Inr (nodeConfigs, h) \<Rightarrow>
                          (case nodes_loop c [ControlPlaneRole, WorkerRole]
                                  nodeNames nodeConfigs h [] of
                             Inl err \<Rightarrow> (Inl err, w')
                           | Inr (nodes, h') \<Rightarrow> (Inr (nodes, h'), w')))))"

text \<open>The names, and the declared nodes, of one role, in the order of the list.\<close>

abbreviation names_of_role :: "NodeRole \<Rightarrow> string list \<Rightarrow> string list" where
  "names_of_role role names \<equiv> filter (\<lambda>n. HasSuffix (TrimRightFunc n IsDigit) role) names"

abbreviation nodes_of_role :: "NodeRole \<Rightarrow> kind_Node list \<Rightarrow> kind_Node list" where
  "nodes_of_role role decls \<equiv> filter (\<lambda>v. Role v = role) decls"

text \<open>The options that \<^verbatim>\<open>NewCluster\<close> starts from, and the world once
  \<^verbatim>\<open>GetClusterNames\<close> has run its command.\<close>

abbreviation apply_opts :: "(ClusterOptions \<Rightarrow> ClusterOptions) list \<Rightarrow> ClusterOptions" where
  "apply_opts opts \<equiv>
     fold (\<lambda>opt o'. opt o') opts \<lparr>opt_name = [], opt_config = None, opt_kubeconfig = []\<rparr>"

abbreviation listed :: "world \<Rightarrow> world" where
  "listed w \<equiv> w\<lparr>trace := trace w @ [Exec [''kind'', ''get'', ''clusters'', ''-q''] []]\<rparr>"

subsection \<open>Example inputs\<close>

text \<open>
  An environment in which a command answers from a table (any other command exits with
  an error), a stored document decodes by a table, every context resolves to the API
  endpoint 1 and the API server fails no request of its own.
\<close>

definition answers :: "(string list \<times> (error + string)) list \<Rightarrow> event list \<Rightarrow> error + string" where
  "answers table t =
     (case rev t of
        Exec command stdin # earlier \<Rightarrow>
          (case map_of table command of
             Some r \<Rightarrow> r
           | None \<Rightarrow> Inl (External ''exit status 1''))
      | _ \<Rightarrow> Inl (External ''exit status 1''))"

definition example_env ::
  "(string list \<times> (error + string)) list \<Rightarrow> (string \<times> kind_Cluster) list \<Rightarrow> env" where
  "example_env table docs =
     \<lparr>command_result = answers table,
      HomeDir = ''/home/user'',
      Duration_String = (\<lambda>d. ''5m0s''),
      yaml_Marshal = (\<lambda>c. Inr (''name: '' @ Name c)),
      yaml_Unmarshal = (\<lambda>s. case map_of docs s of
                                Some c \<Rightarrow> Inr c
                              | None \<Rightarrow> Inl (External ''yaml: unmarshal errors'')),
      NewConfig = (\<lambda>options. Inl (External ''no template'')),
      ClientConfig = (\<lambda>t context. Inr 1),
      NewForConfig = (\<lambda>csconfig. Inr csconfig),
      api_fault = (\<lambda>t. None)\<rparr>"

definition empty_world :: world where
  "empty_world = \<lparr>configmaps = [], trace = []\<rparr>"

text \<open>A cluster \<open>k\<close> that declares a control-plane node and two workers, and the
  command that lists its nodes.\<close>

definition three_nodes :: "kind_Node list" where
  "three_nodes =
     [\<lparr>Role = ''control-plane'', NodeSpec = ''first''\<rparr>,
      \<lparr>Role = ''worker'', NodeSpec = ''second''\<rparr>,
      \<lparr>Role = ''worker'', NodeSpec = ''third''\<rparr>]"

definition cluster_of :: "kind_Node list \<Rightarrow> Cluster" where
  "cluster_of decls =
     \<lparr>cluster_Name = ''k'',
      cluster_config = \<lparr>Name = ''k'', Nodes = Some decls, ClusterSpec = []\<rparr>,
      cluster_kubeconfig = ''/home/user/.kube/config'',
      cluster_nvml = 0, cluster_stdout = 1, cluster_stderr = 2\<rparr>"

definition get_nodes_k :: "string list" where
  "get_nodes_k = [''kind'', ''get'', ''nodes'', ''--name'', ''k'']"

definition live_env :: "string \<Rightarrow> env" where
  "live_env printed = example_env [(get_nodes_k, Inr printed)] []"

definition two_nodes :: "kind_Node list" where
  "two_nodes =
     [\<lparr>Role = ''control-plane'', NodeSpec = ''first''\<rparr>,
      \<lparr>Role = ''worker'', NodeSpec = ''second''\<rparr>]"

text \<open>What \<^verbatim>\<open>kind get nodes\<close> prints for a control-plane node and two workers.\<close>

definition printed_three :: string where
  "printed_three = ''k-worker2\<newline>k-control-plane\<newline>k-worker\<newline>''"

text \<open>
  A cluster \<open>k\<close> that exists and whose record in the store decodes to \<open>stored_doc\<close>; a
  caller's configuration that differs from \<open>stored_doc\<close> in its name only; options that
  set the name and the configuration.
\<close>

definition get_clusters :: "string list" where
  "get_clusters = [''kind'', ''get'', ''clusters'', ''-q'']"

definition stored_doc :: kind_Cluster where
  "stored_doc = \<lparr>Name = ''k'', Nodes = Some three_nodes, ClusterSpec = ''networking''\<rparr>"

definition renamed_config :: Config where
  "renamed_config = \<lparr>Cluster = stored_doc\<lparr>Name := ''other''\<rparr>, nvml = 0, stdout = 1, stderr = 2\<rparr>"

definition same_config :: Config where
  "same_config = \<lparr>Cluster = stored_doc, nvml = 0, stdout = 1, stderr = 2\<rparr>"

definition changed_config :: Config where
  "changed_config =
     \<lparr>Cluster = stored_doc\<lparr>Nodes := Some two_nodes\<rparr>, nvml = 0, stdout = 1, stderr = 2\<rparr>"

definition existing_env :: env where
  "existing_env =
     example_env [(get_clusters, Inr ''other-cluster\<newline>k\<newline>'')]
       [(''{name: k, nodes: 3}'', stored_doc)]"

definition existing_world :: world where
  "existing_world =
     \<lparr>configmaps = [((1, ''default'', ''nvkind-cluster-config''),
                      [(''config'', ''{name: k, nodes: 3}'')])],
      trace = []\<rparr>"

definition no_cluster_env :: env where
  "no_cluster_env = example_env [(get_clusters, Inr ''other-cluster\<newline>'')] []"

definition set_name :: "string \<Rightarrow> ClusterOptions \<Rightarrow> ClusterOptions" where
  "set_name n o' = o'\<lparr>opt_name := n\<rparr>"

definition set_config :: "Config \<Rightarrow> ClusterOptions \<Rightarrow> ClusterOptions" where
  "set_config c o' = o'\<lparr>opt_config := Some c\<rparr>"

text \<open>The same cluster with a record that has no \<open>config\<close> key.\<close>

definition keyless_world :: world where
  "keyless_world =
     \<lparr>configmaps = [((1, ''default'', ''nvkind-cluster-config''), [(''owner'', ''nvkind'')])],
      trace = []\<rparr>"

definition keyless_env :: env where
  "keyless_env =
     example_env [(get_clusters, Inr ''k\<newline>'')]
       [([], \<lparr>Name = [], Nodes = None, ClusterSpec = []\<rparr>)]"

text \<open>
  Environments in which \<^verbatim>\<open>kind create cluster\<close> succeeds for \<open>k\<close> and the API server
  fails every request with the given error, and one in which the command itself fails.
\<close>

definition create_k :: "string list" where
  "create_k = [''kind'', ''create'', ''cluster'', ''--name'', ''k'', ''--config'', ''-'']"

definition failing_store_env :: "error \<Rightarrow> env" where
  "failing_store_env err =
     (example_env [(create_k, Inr ''Creating cluster k ...'')] [])\<lparr>api_fault := (\<lambda>t. Some err)\<rparr>"

definition failing_create_env :: env where
  "failing_create_env = example_env [(create_k, Inl (External ''exit status 1''))] []"

text \<open>An environment in which the command succeeds and the API server fails nothing.\<close>

definition created_env :: env where
  "created_env = example_env [(create_k, Inr ''Creating cluster k ...'')] []"

text \<open>The same, but the API server answers the first request with Conflict.\<close>

definition conflict_once_env :: env where
  "conflict_once_env =
     created_env\<lparr>api_fault :=
                   (\<lambda>t. if length t = 2 then Some (StatusError Conflict) else None)\<rparr>"

text \<open>
  The cluster \<open>k\<close> with a record that decodes to a configuration named \<open>old\<close>, and a
  caller's configuration equal to that one.
\<close>

definition misnamed_doc :: kind_Cluster where
  "misnamed_doc = \<lparr>Name = ''old'', Nodes = Some three_nodes, ClusterSpec = ''networking''\<rparr>"

definition misnamed_config :: Config where
  "misnamed_config = \<lparr>Cluster = misnamed_doc, nvml = 0, stdout = 1, stderr = 2\<rparr>"

definition misnamed_env :: env where
  "misnamed_env =
     example_env [(get_clusters, Inr ''k\<newline>'')] [(''{name: old, nodes: 3}'', misnamed_doc)]"

definition misnamed_world :: world where
  "misnamed_world =
     \<lparr>configmaps = [((1, ''default'', ''nvkind-cluster-config''),
                      [(''config'', ''{name: old, nodes: 3}'')])],
      trace = []\<rparr>"

section \<open>Lemmas\<close>

subsection \<open>Strings and role tokens\<close>

lemma fields_from_nonempty: "x \<in> set (fields_from cur s) \<Longrightarrow> x \<noteq> []"
  by (induction s arbitrary: cur) (auto split: if_splits)

lemma Fields_nonempty: "[] \<notin> set (Fields s)"
  using fields_from_nonempty [of "[]" "[]" s] by (auto simp: Fields_def)

lemma HasSuffix_append: "HasSuffix s suffix \<Longrightarrow> \<exists>pre. s = pre @ suffix"
proof -
  assume h: "HasSuffix s suffix"
  have "s = take (length s - length suffix) s @ drop (length s - length suffix) s"
    by simp
  with h show ?thesis
    unfolding HasSuffix_def by metis
qed

lemma HasSuffix_last: "HasSuffix s suffix \<Longrightarrow> suffix \<noteq> [] \<Longrightarrow> last s = last suffix"
  using HasSuffix_append [of s suffix] by auto

lemma roles_exclusive: "\<not> (HasSuffix s ControlPlaneRole \<and> HasSuffix s WorkerRole)"
proof
  assume h: "HasSuffix s ControlPlaneRole \<and> HasSuffix s WorkerRole"
  then have "last s = CHR ''e''" "last s = CHR ''r''"
    using HasSuffix_last [of s ControlPlaneRole] HasSuffix_last [of s WorkerRole]
    by (simp_all add: ControlPlaneRole_def WorkerRole_def)
  then show False by simp
qed



lemma nodeNames_loop_ok:
  "\<forall>n\<in>set ns. HasSuffix (TrimRightFunc n IsDigit) ControlPlaneRole
              \<or> HasSuffix (TrimRightFunc n IsDigit) WorkerRole \<Longrightarrow>
   \<exists>m'. nodeNames_loop ns m = Inr m'
       \<and> m' ControlPlaneRole =
           m ControlPlaneRole @ filter (\<lambda>n. HasSuffix (TrimRightFunc n IsDigit) ControlPlaneRole) ns
       \<and> m' WorkerRole =
           m WorkerRole @ filter (\<lambda>n. HasSuffix (TrimRightFunc n IsDigit) WorkerRole) ns"
proof (induction ns arbitrary: m)
  case Nil
  then show ?case by simp
next
  case (Cons n ns)
  have ne: "ControlPlaneRole \<noteq> WorkerRole" by (simp add: ControlPlaneRole_def WorkerRole_def)
  from Cons.prems have rest: "\<forall>n\<in>set ns. HasSuffix (TrimRightFunc n IsDigit) ControlPlaneRole
              \<or> HasSuffix (TrimRightFunc n IsDigit) WorkerRole" by simp
  show ?case
  proof (cases "HasSuffix (TrimRightFunc n IsDigit) ControlPlaneRole")
    case True
    then have nw: "\<not> HasSuffix (TrimRightFunc n IsDigit) WorkerRole"
      using roles_exclusive by blast
    from Cons.IH [OF rest, of "m(ControlPlaneRole := m ControlPlaneRole @ [n])"]
    obtain m' where "nodeNames_loop ns (m(ControlPlaneRole := m ControlPlaneRole @ [n])) = Inr m'"
      and "m' ControlPlaneRole = (m(ControlPlaneRole := m ControlPlaneRole @ [n])) ControlPlaneRole
             @ filter (\<lambda>n. HasSuffix (TrimRightFunc n IsDigit) ControlPlaneRole) ns"
      and "m' WorkerRole = (m(ControlPlaneRole := m ControlPlaneRole @ [n])) WorkerRole
             @ filter (\<lambda>n. HasSuffix (TrimRightFunc n IsDigit) WorkerRole) ns"
      by blast
    with True nw ne show ?thesis by (simp add: Let_def)
  next
    case False
    with Cons.prems have w: "HasSuffix (TrimRightFunc n IsDigit) WorkerRole" by simp
    from Cons.IH [OF rest, of "m(WorkerRole := m WorkerRole @ [n])"]
    obtain m' where "nodeNames_loop ns (m(WorkerRole := m WorkerRole @ [n])) = Inr m'"
      and "m' ControlPlaneRole = (m(WorkerRole := m WorkerRole @ [n])) ControlPlaneRole
             @ filter (\<lambda>n. HasSuffix (TrimRightFunc n IsDigit) ControlPlaneRole) ns"
      and "m' WorkerRole = (m(WorkerRole := m WorkerRole @ [n])) WorkerRole
             @ filter (\<lambda>n. HasSuffix (TrimRightFunc n IsDigit) WorkerRole) ns"
      by blast
    with False w ne show ?thesis by (simp add: Let_def)
  qed
qed



subsection \<open>The loops of node resolution\<close>

lemma map_nth_below: "\<forall>p\<in>set ps. p < length h \<Longrightarrow> map ((!) (h @ xs)) ps = map ((!) h) ps"
  by (simp add: nth_append)

lemma map_nth_offset: "map ((!) (h @ xs)) [length h..<length h + length xs] = xs"
  by (rule nth_equalityI) (simp_all add: nth_append)

lemma nodeConfigs_loop_ok:
  assumes "\<forall>v\<in>set vs. Role v = ControlPlaneRole \<or> Role v = WorkerRole"
    and "\<forall>r. \<forall>p\<in>set (m r). p < length h"
  shows "\<exists>m'. nodeConfigs_loop vs h m = Inr (m', h @ vs)
           \<and> (\<forall>r. map ((!) (h @ vs)) (m' r) = map ((!) h) (m r) @ filter (\<lambda>v. Role v = r) vs)
           \<and> (\<forall>r. \<forall>p\<in>set (m' r). p < length (h @ vs))"
  using assms
proof (induction vs arbitrary: h m)
  case Nil
  then show ?case by simp
next
  case (Cons v vs)
  let ?m = "m(Role v := m (Role v) @ [length h])"
  have roles: "\<forall>v\<in>set vs. Role v = ControlPlaneRole \<or> Role v = WorkerRole"
    using Cons.prems(1) by simp
  have below: "\<forall>r. \<forall>p\<in>set (?m r). p < length (h @ [v])"
    using Cons.prems(2) by (auto simp: less_Suc_eq)
  from Cons.IH [OF roles below]
  obtain m' where run: "nodeConfigs_loop vs (h @ [v]) ?m = Inr (m', (h @ [v]) @ vs)"
    and rd: "\<forall>r. map ((!) ((h @ [v]) @ vs)) (m' r)
                 = map ((!) (h @ [v])) (?m r) @ filter (\<lambda>v. Role v = r) vs"
    and lt: "\<forall>r. \<forall>p\<in>set (m' r). p < length ((h @ [v]) @ vs)"
    by blast
  have step: "nodeConfigs_loop (v # vs) h m = nodeConfigs_loop vs (h @ [v]) ?m"
    using Cons.prems(1) by (auto simp: new_def)
  have old: "\<And>r. map ((!) (h @ [v])) (m r) = map ((!) h) (m r)"
    using Cons.prems(2) by (simp add: map_nth_below)
  have "\<forall>r. map ((!) (h @ v # vs)) (m' r) = map ((!) h) (m r) @ filter (\<lambda>v. Role v = r) (v # vs)"
    using rd old by simp
  with run lt step show ?case by simp
qed

lemma nodes_inner_ok:
  assumes "length names = length ps" and "\<forall>p\<in>set ps. p < length h"
  shows "\<exists>nodes'. nodes_inner c names ps h nodes = (nodes', h @ map ((!) h) ps)
           \<and> map node_Name nodes' = map node_Name nodes @ names
           \<and> map node_config nodes' = map node_config nodes @ [length h..<length h + length ps]
           \<and> length nodes' = length nodes + length names"
  using assms
proof (induction names ps arbitrary: h nodes rule: list_induct2)
  case Nil
  then show ?case by simp
next
  case (Cons nm names p ps)
  let ?node = "\<lparr>node_Name = nm, node_config = length h, node_nvml = cluster_nvml c,
                 node_stdout = cluster_stdout c, node_stderr = cluster_stderr c\<rparr>"
  have below: "\<forall>q\<in>set ps. q < length (h @ [h ! p])"
    using Cons.prems by (auto simp: less_Suc_eq)
  from Cons.IH [OF below, of "nodes @ [?node]"]
  obtain nodes' where
    run: "nodes_inner c names ps (h @ [h ! p]) (nodes @ [?node])
            = (nodes', (h @ [h ! p]) @ map ((!) (h @ [h ! p])) ps)"
    and nms: "map node_Name nodes' = map node_Name (nodes @ [?node]) @ names"
    and cfs: "map node_config nodes'
                = map node_config (nodes @ [?node])
                  @ [length (h @ [h ! p])..<length (h @ [h ! p]) + length ps]"
    and len: "length nodes' = length (nodes @ [?node]) + length names"
    by blast
  have step: "nodes_inner c (nm # names) (p # ps) h nodes
                = nodes_inner c names ps (h @ [h ! p]) (nodes @ [?node])"
    by (simp add: DeepCopy_def new_def)
  have rd: "map ((!) (h @ [h ! p])) ps = map ((!) h) ps"
    using Cons.prems by (simp add: map_nth_below)
  have upt: "[length h..<length h + length (p # ps)]
               = length h # [length (h @ [h ! p])..<length (h @ [h ! p]) + length ps]"
    by (subst upt_conv_Cons) simp_all
  show ?case
    using run nms cfs len step rd upt by simp
qed

lemma names_split_length:
  "\<forall>n\<in>set ns. HasSuffix (TrimRightFunc n IsDigit) ControlPlaneRole
              \<or> HasSuffix (TrimRightFunc n IsDigit) WorkerRole \<Longrightarrow>
   length (names_of_role ControlPlaneRole ns) + length (names_of_role WorkerRole ns) = length ns"
  using roles_exclusive by (induction ns) auto

lemma nodes_split_length:
  "\<forall>v\<in>set vs. Role v = ControlPlaneRole \<or> Role v = WorkerRole \<Longrightarrow>
   length (nodes_of_role ControlPlaneRole vs) + length (nodes_of_role WorkerRole vs) = length vs"
  by (induction vs) (auto simp: ControlPlaneRole_def WorkerRole_def)

lemma GetNodes_to_nodes_loop:
  fixes env c w outp
  defines "names \<equiv> sort_Strings (Fields outp)"
    and "decls \<equiv> elems (Nodes (cluster_config c))"
  assumes out: "command_result env
                  (trace w @ [Exec [''kind'', ''get'', ''nodes'', ''--name'', cluster_Name c] []])
                = Inr outp"
    and cls: "\<forall>n\<in>set names. HasSuffix (TrimRightFunc n IsDigit) ControlPlaneRole
                \<or> HasSuffix (TrimRightFunc n IsDigit) WorkerRole"
    and rls: "\<forall>v\<in>set decls. Role v = ControlPlaneRole \<or> Role v = WorkerRole"
  shows "\<exists>nn nc. fst (GetNodes env c w)
                   = nodes_loop c [ControlPlaneRole, WorkerRole] nn nc (decls @ decls) []
           \<and> nn ControlPlaneRole = names_of_role ControlPlaneRole names
           \<and> nn WorkerRole = names_of_role WorkerRole names
           \<and> map ((!) (decls @ decls)) (nc ControlPlaneRole) = nodes_of_role ControlPlaneRole decls
           \<and> map ((!) (decls @ decls)) (nc WorkerRole) = nodes_of_role WorkerRole decls
           \<and> (\<forall>r. \<forall>p\<in>set (nc r). p < length (decls @ decls))"
proof -
  from nodeNames_loop_ok [OF cls, of "\<lambda>role. []"]
  obtain nn where nn: "nodeNames_loop names (\<lambda>role. []) = Inr nn"
    and nn_cp: "nn ControlPlaneRole = names_of_role ControlPlaneRole names"
    and nn_w: "nn WorkerRole = names_of_role WorkerRole names"
    by auto
  have "\<forall>r. \<forall>p\<in>set ((\<lambda>role. []) r). p < length decls" by simp
  from nodeConfigs_loop_ok [OF rls this]
  obtain nc where nc: "nodeConfigs_loop decls decls (\<lambda>role. []) = Inr (nc, decls @ decls)"
    and rd: "\<forall>r. map ((!) (decls @ decls)) (nc r) = map ((!) decls) [] @ nodes_of_role r decls"
    and lt: "\<forall>r. \<forall>p\<in>set (nc r). p < length (decls @ decls)"
    by blast
  have rd': "\<forall>r. map ((!) (decls @ decls)) (nc r) = nodes_of_role r decls"
    using rd by simp
  have eq: "fst (GetNodes env c w)
          = nodes_loop c [ControlPlaneRole, WorkerRole] nn nc (decls @ decls) []"
    using out nn nc
    by (simp add: GetNodes_def run_def names_def [symmetric] decls_def [symmetric]
          split: sum.splits prod.splits)
  show ?thesis using eq nn_cp nn_w rd' lt by blast
qed

lemma nodes_loop_two_roles:
  assumes l1: "length (nn r1) = length (nc r1)" and l2: "length (nn r2) = length (nc r2)"
    and lt: "\<forall>r. \<forall>p\<in>set (nc r). p < length h"
  shows "\<exists>nodes. nodes_loop c [r1, r2] nn nc h []
                   = Inr (nodes, h @ map ((!) h) (nc r1) @ map ((!) h) (nc r2))
           \<and> map node_Name nodes = nn r1 @ nn r2
           \<and> map node_config nodes = [length h..<length h + length (nc r1) + length (nc r2)]"
proof -
  from lt have lt1: "\<forall>p\<in>set (nc r1). p < length h" by simp
  from nodes_inner_ok [OF l1 lt1, of c "[]"]
  obtain ns1 where r1: "nodes_inner c (nn r1) (nc r1) h [] = (ns1, h @ map ((!) h) (nc r1))"
    and nm1: "map node_Name ns1 = nn r1"
    and cf1: "map node_config ns1 = [length h..<length h + length (nc r1)]"
    by auto
  let ?h1 = "h @ map ((!) h) (nc r1)"
  from lt have lt2: "\<forall>p\<in>set (nc r2). p < length ?h1" by (simp add: trans_less_add1)
  from nodes_inner_ok [OF l2 lt2, of c ns1]
  obtain ns2 where r2: "nodes_inner c (nn r2) (nc r2) ?h1 ns1 = (ns2, ?h1 @ map ((!) ?h1) (nc r2))"
    and nm2: "map node_Name ns2 = map node_Name ns1 @ nn r2"
    and cf2: "map node_config ns2 = map node_config ns1 @ [length ?h1..<length ?h1 + length (nc r2)]"
    by auto
  have rd: "map ((!) ?h1) (nc r2) = map ((!) h) (nc r2)"
    using lt by (simp add: map_nth_below)
  have cf: "map node_config ns2 = [length h..<length h + length (nc r1) + length (nc r2)]"
    using cf1 cf2
      upt_add_eq_append [of "length h" "length h + length (nc r1)" "length (nc r2)"]
    by simp
  have "nodes_loop c [r1, r2] nn nc h [] = Inr (ns2, h @ map ((!) h) (nc r1) @ map ((!) h) (nc r2))"
    using l1 l2 r1 r2 rd by simp
  with nm1 nm2 cf show ?thesis by auto
qed

lemma GetNodes_resolves:
  fixes env c w outp
  defines "names \<equiv> sort_Strings (Fields outp)"
    and "decls \<equiv> elems (Nodes (cluster_config c))"
  assumes out: "command_result env
                  (trace w @ [Exec [''kind'', ''get'', ''nodes'', ''--name'', cluster_Name c] []])
                = Inr outp"
    and cls: "\<forall>n\<in>set names. HasSuffix (TrimRightFunc n IsDigit) ControlPlaneRole
                \<or> HasSuffix (TrimRightFunc n IsDigit) WorkerRole"
    and rls: "\<forall>v\<in>set decls. Role v = ControlPlaneRole \<or> Role v = WorkerRole"
    and cnt_cp: "length (names_of_role ControlPlaneRole names)
                   = length (nodes_of_role ControlPlaneRole decls)"
    and cnt_w: "length (names_of_role WorkerRole names) = length (nodes_of_role WorkerRole decls)"
  shows "\<exists>nodes. fst (GetNodes env c w)
                   = Inr (nodes, decls @ decls @ nodes_of_role ControlPlaneRole decls
                                  @ nodes_of_role WorkerRole decls)
           \<and> map node_Name nodes
               = names_of_role ControlPlaneRole names @ names_of_role WorkerRole names
           \<and> map node_config nodes = [2 * length decls..<2 * length decls + length names]"
proof -
  from GetNodes_to_nodes_loop [OF out cls [unfolded names_def] rls [unfolded decls_def]]
  obtain nn nc where
    eq: "fst (GetNodes env c w) = nodes_loop c [ControlPlaneRole, WorkerRole] nn nc (decls @ decls) []"
    and nn_cp: "nn ControlPlaneRole = names_of_role ControlPlaneRole names"
    and nn_w: "nn WorkerRole = names_of_role WorkerRole names"
    and nc_cp: "map ((!) (decls @ decls)) (nc ControlPlaneRole) = nodes_of_role ControlPlaneRole decls"
    and nc_w: "map ((!) (decls @ decls)) (nc WorkerRole) = nodes_of_role WorkerRole decls"
    and lt: "\<forall>r. \<forall>p\<in>set (nc r). p < length (decls @ decls)"
    unfolding names_def decls_def by blast
  have lc: "length (nc ControlPlaneRole) = length (nodes_of_role ControlPlaneRole decls)"
    using arg_cong [OF nc_cp, of length] by simp
  have lw: "length (nc WorkerRole) = length (nodes_of_role WorkerRole decls)"
    using arg_cong [OF nc_w, of length] by simp
  have l1: "length (nn ControlPlaneRole) = length (nc ControlPlaneRole)"
    using nn_cp cnt_cp lc by simp
  have l2: "length (nn WorkerRole) = length (nc WorkerRole)"
    using nn_w cnt_w lw by simp
  from nodes_loop_two_roles [OF l1 l2 lt, of c]
  obtain nodes where
    r: "nodes_loop c [ControlPlaneRole, WorkerRole] nn nc (decls @ decls) []
          = Inr (nodes, (decls @ decls) @ map ((!) (decls @ decls)) (nc ControlPlaneRole)
                          @ map ((!) (decls @ decls)) (nc WorkerRole))"
    and nm: "map node_Name nodes = nn ControlPlaneRole @ nn WorkerRole"
    and cf: "map node_config nodes
               = [length (decls @ decls)..<length (decls @ decls) + length (nc ControlPlaneRole)
                                            + length (nc WorkerRole)]"
    by blast
  have total: "length (nc ControlPlaneRole) + length (nc WorkerRole) = length names"
    using names_split_length [OF cls] l1 l2 nn_cp nn_w by simp
  have "map node_config nodes = [2 * length decls..<2 * length decls + length names]"
    using cf total by (simp add: mult_2 add.assoc)
  with eq r nm nn_cp nn_w nc_cp nc_w show ?thesis by simp
qed

lemma GetNodes_mismatch_first:
  fixes env c w outp
  defines "names \<equiv> sort_Strings (Fields outp)"
    and "decls \<equiv> elems (Nodes (cluster_config c))"
  assumes out: "command_result env
                  (trace w @ [Exec [''kind'', ''get'', ''nodes'', ''--name'', cluster_Name c] []])
                = Inr outp"
    and cls: "\<forall>n\<in>set names. HasSuffix (TrimRightFunc n IsDigit) ControlPlaneRole
                \<or> HasSuffix (TrimRightFunc n IsDigit) WorkerRole"
    and rls: "\<forall>v\<in>set decls. Role v = ControlPlaneRole \<or> Role v = WorkerRole"
    and cnt_cp: "length (names_of_role ControlPlaneRole names)
                   \<noteq> length (nodes_of_role ControlPlaneRole decls)"
  shows "fst (GetNodes env c w)
           = Inl (New (''node names and configs mismatch for '' @ ControlPlaneRole @ '' role''))"
proof -
  from GetNodes_to_nodes_loop [OF out cls [unfolded names_def] rls [unfolded decls_def]]
  obtain nn nc where
    eq: "fst (GetNodes env c w) = nodes_loop c [ControlPlaneRole, WorkerRole] nn nc (decls @ decls) []"
    and nn_cp: "nn ControlPlaneRole = names_of_role ControlPlaneRole names"
    and nc_cp: "map ((!) (decls @ decls)) (nc ControlPlaneRole) = nodes_of_role ControlPlaneRole decls"
    unfolding names_def decls_def by blast
  have lc: "length (nc ControlPlaneRole) = length (nodes_of_role ControlPlaneRole decls)"
    using arg_cong [OF nc_cp, of length] by simp
  show ?thesis using eq nn_cp lc cnt_cp by simp
qed

lemma GetNodes_mismatch_second:
  fixes env c w outp
  defines "names \<equiv> sort_Strings (Fields outp)"
    and "decls \<equiv> elems (Nodes (cluster_config c))"
  assumes out: "command_result env
                  (trace w @ [Exec [''kind'', ''get'', ''nodes'', ''--name'', cluster_Name c] []])
                = Inr outp"
    and cls: "\<forall>n\<in>set names. HasSuffix (TrimRightFunc n IsDigit) ControlPlaneRole
                \<or> HasSuffix (TrimRightFunc n IsDigit) WorkerRole"
    and rls: "\<forall>v\<in>set decls. Role v = ControlPlaneRole \<or> Role v = WorkerRole"
    and cnt_cp: "length (names_of_role ControlPlaneRole names)
                   = length (nodes_of_role ControlPlaneRole decls)"
    and cnt_w: "length (names_of_role WorkerRole names) \<noteq> length (nodes_of_role WorkerRole decls)"
  shows "fst (GetNodes env c w)
           = Inl (New (''node names and configs mismatch for '' @ WorkerRole @ '' role''))"
proof -
  from GetNodes_to_nodes_loop [OF out cls [unfolded names_def] rls [unfolded decls_def]]
  obtain nn nc where
    eq: "fst (GetNodes env c w) = nodes_loop c [ControlPlaneRole, WorkerRole] nn nc (decls @ decls) []"
    and nn_cp: "nn ControlPlaneRole = names_of_role ControlPlaneRole names"
    and nn_w: "nn WorkerRole = names_of_role WorkerRole names"
    and nc_cp: "map ((!) (decls @ decls)) (nc ControlPlaneRole) = nodes_of_role ControlPlaneRole decls"
    and nc_w: "map ((!) (decls @ decls)) (nc WorkerRole) = nodes_of_role WorkerRole decls"
    unfolding names_def decls_def by blast
  have lc: "length (nc ControlPlaneRole) = length (nodes_of_role ControlPlaneRole decls)"
    using arg_cong [OF nc_cp, of length] by simp
  have lw: "length (nc WorkerRole) = length (nodes_of_role WorkerRole decls)"
    using arg_cong [OF nc_w, of length] by simp
  show ?thesis using eq nn_cp nn_w lc lw cnt_cp cnt_w
    by (simp split: prod.splits)
qed

subsection \<open>Reconciliation\<close>

lemma GetClusterNames_Inr:
  "command_result env (trace (listed w)) = Inr outp \<Longrightarrow>
   GetClusterNames env w = (Inr (set (Fields outp)), listed w)"
  by (simp add: GetClusterNames_def run_def)

lemma GetClusterNames_configmaps:
  "GetClusterNames env w = (r, w1) \<Longrightarrow> configmaps w1 = configmaps w"
  by (auto simp: GetClusterNames_def run_def Let_def split: sum.splits)

lemma getConfigBytes_ok:
  assumes "ClientConfig env (trace w) (''kind-'' @ name) = Inr csconfig"
    and "NewForConfig env csconfig = Inr k"
    and "api_fault env (trace w @ [ConfigMapsGet k ''default'' nvkindClusterConfigName]) = None"
    and "map_of (configmaps w) (k, ''default'', nvkindClusterConfigName) = Some d"
  shows "getConfigBytesFromExistingCluster env name w
           = (Inr (map_index d ''config''),
              w\<lparr>trace := trace w @ [ConfigMapsGet k ''default'' nvkindClusterConfigName]\<rparr>)"
  using assms
  by (simp add: getConfigBytesFromExistingCluster_def ConfigMaps_Get_def Let_def)

lemma getConfigBytes_configmaps:
  "getConfigBytesFromExistingCluster env name w = (r, w2) \<Longrightarrow> configmaps w2 = configmaps w"
  by (auto simp: getConfigBytesFromExistingCluster_def ConfigMaps_Get_def Let_def
        split: sum.splits option.splits)

lemma setConfig_configmaps:
  "setConfig env o0 w = (r, w') \<Longrightarrow> configmaps w' = configmaps w"
  by (auto simp: setConfig_def Let_def
        split: prod.splits sum.splits option.splits if_splits
        dest!: GetClusterNames_configmaps getConfigBytes_configmaps)

lemma NewCluster_configmaps:
  "configmaps (snd (NewCluster env opts w)) = configmaps w"
  by (auto simp: NewCluster_def Let_def split: prod.splits sum.splits option.splits
        dest!: setConfig_configmaps)

lemma setConfig_new:
  assumes lst: "command_result env (trace (listed w)) = Inr outp"
    and nex: "opt_name o0 \<notin> set (Fields outp)"
    and cfg: "opt_config o0 = Some config"
  shows "setConfig env o0 w
           = (Inr (if opt_name o0 \<noteq> []
                   then o0\<lparr>opt_config :=
                             Some (config\<lparr>Cluster := (Cluster config)\<lparr>Name := opt_name o0\<rparr>\<rparr>)\<rparr>
                   else o0), listed w)"
  using assms by (simp add: setConfig_def GetClusterNames_Inr Fields_nonempty)

lemma setConfig_existing:
  assumes lst: "command_result env (trace (listed w)) = Inr outp"
    and ex: "opt_name o0 \<in> set (Fields outp)"
    and cfg: "opt_config o0 = Some config"
    and rd: "getConfigBytesFromExistingCluster env (opt_name o0) (listed w) = (Inr bytes, w2)"
    and dec: "yaml_Unmarshal env bytes = Inr c2"
  shows "setConfig env o0 w
           = (if c2 \<noteq> (Cluster config)\<lparr>Name := opt_name o0\<rparr>
              then Inl (New ''cannot pass new config to existing cluster'')
              else Inr (o0\<lparr>opt_config :=
                             Some (config\<lparr>Cluster := (Cluster config)\<lparr>Name := opt_name o0\<rparr>\<rparr>)\<rparr>),
              w2)"
proof -
  from ex Fields_nonempty [of outp] have "opt_name o0 \<noteq> []" by auto
  with assms show ?thesis
    by (simp add: setConfig_def GetClusterNames_Inr)
qed

lemma NewCluster_existing_equal:
  assumes cfg: "opt_config (apply_opts opts) = Some config"
    and lst: "command_result env (trace (listed w)) = Inr outp"
    and ex: "opt_name (apply_opts opts) \<in> set (Fields outp)"
    and cc: "ClientConfig env (trace (listed w)) (''kind-'' @ opt_name (apply_opts opts))
               = Inr csconfig"
    and nf: "NewForConfig env csconfig = Inr k"
    and ok: "api_fault env
               (trace (listed w) @ [ConfigMapsGet k ''default'' nvkindClusterConfigName]) = None"
    and rec: "map_of (configmaps w) (k, ''default'', nvkindClusterConfigName) = Some d"
    and dec: "yaml_Unmarshal env (map_index d ''config'') = Inr c2"
    and eq: "(Cluster config)\<lparr>Name := opt_name (apply_opts opts)\<rparr> = c2"
  shows "NewCluster env opts w
           = (Inr \<lparr>cluster_Name = opt_name (apply_opts opts),
                   cluster_config = c2,
                   cluster_kubeconfig =
                     (if opt_kubeconfig (apply_opts opts) = [] \<and> HomeDir env \<noteq> []
                      then HomeDir env @ ''/.kube/config''
                      else opt_kubeconfig (apply_opts opts)),
                   cluster_nvml = nvml config,
                   cluster_stdout = stdout config,
                   cluster_stderr = stderr config\<rparr>,
              w\<lparr>trace := trace w @ [Exec [''kind'', ''get'', ''clusters'', ''-q''] [],
                                    ConfigMapsGet k ''default'' nvkindClusterConfigName]\<rparr>)"
proof -
  have rec': "map_of (configmaps (listed w)) (k, ''default'', nvkindClusterConfigName) = Some d"
    using rec by simp
  note rd = getConfigBytes_ok [OF cc nf ok rec']
  from ex Fields_nonempty [of outp] have ne: "opt_name (apply_opts opts) \<noteq> []" by auto
  from setConfig_existing [OF lst ex cfg rd dec] eq
  have "setConfig env (apply_opts opts) w
          = (Inr ((apply_opts opts)\<lparr>opt_config := Some (config\<lparr>Cluster := c2\<rparr>)\<rparr>),
             (listed w)\<lparr>trace := trace (listed w)
                           @ [ConfigMapsGet k ''default'' nvkindClusterConfigName]\<rparr>)"
    by auto
  with ne show ?thesis by (simp add: NewCluster_def Let_def)
qed

lemma GetClusterNames_ignores_Marshal:
  "GetClusterNames (env\<lparr>yaml_Marshal := marshal\<rparr>) w = GetClusterNames env w"
  by (simp add: GetClusterNames_def run_def)

lemma getConfigBytes_ignores_Marshal:
  "getConfigBytesFromExistingCluster (env\<lparr>yaml_Marshal := marshal\<rparr>) name w
     = getConfigBytesFromExistingCluster env name w"
  by (simp add: getConfigBytesFromExistingCluster_def ConfigMaps_Get_def
        split: sum.splits option.splits)

lemma setConfig_ignores_Marshal:
  "setConfig (env\<lparr>yaml_Marshal := marshal\<rparr>) o0 w = setConfig env o0 w"
  by (simp add: setConfig_def GetClusterNames_ignores_Marshal getConfigBytes_ignores_Marshal
        Let_def split: prod.splits sum.splits option.splits)

lemma NewCluster_ignores_Marshal:
  "NewCluster (env\<lparr>yaml_Marshal := marshal\<rparr>) opts w = NewCluster env opts w"
proof (cases "setConfig env (apply_opts opts) w")
  case (Pair r w')
  show ?thesis
  proof (cases r)
    case (Inl err)
    with Pair show ?thesis
      by (simp add: NewCluster_def setConfig_ignores_Marshal)
  next
    case (Inr o1)
    with Pair show ?thesis
      by (cases "opt_config o1") (simp_all add: NewCluster_def setConfig_ignores_Marshal Let_def)
  qed
qed

lemma setConfig_name_irrelevant:
  "opt_name o0 \<noteq> [] \<Longrightarrow>
   setConfig env (o0\<lparr>opt_config := Some (c\<lparr>Cluster := (Cluster c)\<lparr>Name := x\<rparr>\<rparr>)\<rparr>) w
     = setConfig env (o0\<lparr>opt_config := Some c\<rparr>) w"
proof (cases "GetClusterNames env w")
  case (Pair r w1)
  assume "opt_name o0 \<noteq> []"
  with Pair show ?thesis
    by (cases r) (simp_all add: setConfig_def)
qed

subsection \<open>Creation\<close>

lemma ConfigMaps_Create_trace:
  "trace (snd (ConfigMaps_Create env k ns cm w)) = trace w @ [ConfigMapsCreate k ns cm]"
  by (simp add: ConfigMaps_Create_def Let_def split: option.splits)

lemma OnError_Create_trace:
  "\<exists>m. trace (snd (OnError n rt (ConfigMaps_Create env k ns cm) lastErr w))
         = trace w @ replicate m (ConfigMapsCreate k ns cm)"
proof (induction n arbitrary: lastErr w)
  case 0
  show ?case by (rule exI [of _ 0]) simp
next
  case (Suc n)
  obtain r w1 where f: "ConfigMaps_Create env k ns cm w = (r, w1)"
    by (cases "ConfigMaps_Create env k ns cm w") auto
  with ConfigMaps_Create_trace [of env k ns cm w]
  have t1: "trace w1 = trace w @ [ConfigMapsCreate k ns cm]" by simp
  show ?case
  proof (cases "\<exists>err. r = Some err \<and> rt err")
    case True
    then obtain err where r: "r = Some err" and c: "rt err" by blast
    from Suc.IH [of "Some err" w1] obtain m where
      "trace (snd (OnError n rt (ConfigMaps_Create env k ns cm) (Some err) w1))
         = trace w1 @ replicate m (ConfigMapsCreate k ns cm)" by blast
    with t1 f r c
    have "trace (snd (OnError (Suc n) rt (ConfigMaps_Create env k ns cm) lastErr w))
            = trace w @ replicate (Suc m) (ConfigMapsCreate k ns cm)"
      by simp
    then show ?thesis by (rule exI [of _ "Suc m"])
  next
    case False
    with f have "snd (OnError (Suc n) rt (ConfigMaps_Create env k ns cm) lastErr w) = w1"
      by (cases r) auto
    with t1
    have "trace (snd (OnError (Suc n) rt (ConfigMaps_Create env k ns cm) lastErr w))
            = trace w @ replicate (Suc 0) (ConfigMapsCreate k ns cm)"
      by simp
    then show ?thesis by (rule exI [of _ "Suc 0"])
  qed
qed

lemma addConfigBytes_trace:
  "\<exists>k m. trace (snd (addConfigBytesToExistingCluster env name configBytes w))
           = trace w @ replicate m
               (ConfigMapsCreate k ''default''
                  \<lparr>ObjectMeta_Name = nvkindClusterConfigName, Data = [(''config'', configBytes)]\<rparr>)"
proof (cases "ClientConfig env (trace w) (''kind-'' @ name)")
  case (Inl err)
  then have "trace (snd (addConfigBytesToExistingCluster env name configBytes w))
               = trace w @ replicate 0 (ConfigMapsCreate 0 ''default''
                  \<lparr>ObjectMeta_Name = nvkindClusterConfigName, Data = [(''config'', configBytes)]\<rparr>)"
    by (simp add: addConfigBytesToExistingCluster_def)
  then show ?thesis by blast
next
  case cc: (Inr csconfig)
  show ?thesis
  proof (cases "NewForConfig env csconfig")
    case (Inl err)
    with cc have "trace (snd (addConfigBytesToExistingCluster env name configBytes w))
               = trace w @ replicate 0 (ConfigMapsCreate 0 ''default''
                  \<lparr>ObjectMeta_Name = nvkindClusterConfigName, Data = [(''config'', configBytes)]\<rparr>)"
      by (simp add: addConfigBytesToExistingCluster_def)
    then show ?thesis by blast
  next
    case (Inr k)
    let ?cm = "\<lparr>ObjectMeta_Name = nvkindClusterConfigName, Data = [(''config'', configBytes)]\<rparr>"
    obtain r w' where
      run: "OnError DefaultRetry IsConflict (ConfigMaps_Create env k ''default'' ?cm) None w = (r, w')"
      by (cases "OnError DefaultRetry IsConflict (ConfigMaps_Create env k ''default'' ?cm) None w")
        auto
    from OnError_Create_trace [of DefaultRetry IsConflict env k "''default''" ?cm None w] run
    obtain m where "trace w' = trace w @ replicate m (ConfigMapsCreate k ''default'' ?cm)"
      by auto
    with cc Inr run
    have "trace (snd (addConfigBytesToExistingCluster env name configBytes w))
            = trace w @ replicate m (ConfigMapsCreate k ''default'' ?cm)"
      by (simp add: addConfigBytesToExistingCluster_def RetryOnConflict_def)
    then show ?thesis by blast
  qed
qed

text \<open>Whatever the retries end with, if it is an error, the error returned wraps nil.\<close>

lemma addConfigBytes_error:
  assumes "ClientConfig env (trace w) (''kind-'' @ name) = Inr csconfig"
    and "NewForConfig env csconfig = Inr k"
    and "fst (RetryOnConflict DefaultRetry
                (ConfigMaps_Create env k ''default''
                   \<lparr>ObjectMeta_Name = nvkindClusterConfigName,
                    Data = [(''config'', configBytes)]\<rparr>) w) = Some retryErr"
  shows "fst (addConfigBytesToExistingCluster env name configBytes w)
           = Some (Errorf ''writing configmap'' None)"
proof -
  obtain r w' where
    run: "RetryOnConflict DefaultRetry
            (ConfigMaps_Create env k ''default''
               \<lparr>ObjectMeta_Name = nvkindClusterConfigName,
                Data = [(''config'', configBytes)]\<rparr>) w = (r, w')"
    by (cases "RetryOnConflict DefaultRetry
            (ConfigMaps_Create env k ''default''
               \<lparr>ObjectMeta_Name = nvkindClusterConfigName,
                Data = [(''config'', configBytes)]\<rparr>) w") auto
  with assms show ?thesis
    by (simp add: addConfigBytesToExistingCluster_def)
qed

lemma ConfigMaps_Create_None:
  "ConfigMaps_Create env k ns cm w = (None, w') \<Longrightarrow>
   map_of (configmaps w') (k, ns, ObjectMeta_Name cm) = Some (Data cm)"
  by (auto simp: ConfigMaps_Create_def Let_def map_add_def split: option.splits)

lemma OnError_Create_None:
  "OnError n rt (ConfigMaps_Create env k ns cm) lastErr w = (None, w') \<Longrightarrow>
   lastErr \<noteq> None \<or> 0 < n \<Longrightarrow>
   map_of (configmaps w') (k, ns, ObjectMeta_Name cm) = Some (Data cm)"
proof (induction n arbitrary: lastErr w)
  case 0
  then show ?case by simp
next
  case (Suc n)
  obtain r w1 where f: "ConfigMaps_Create env k ns cm w = (r, w1)"
    by (cases "ConfigMaps_Create env k ns cm w") auto
  show ?case
  proof (cases r)
    case None
    with f Suc.prems(1) have "w' = w1" by simp
    with f None show ?thesis by (simp add: ConfigMaps_Create_None)
  next
    case (Some err)
    with f Suc.prems(1)
    have "OnError n rt (ConfigMaps_Create env k ns cm) (Some err) w1 = (None, w')"
      by (simp split: if_splits)
    from Suc.IH [OF this] show ?thesis by simp
  qed
qed

lemma addConfigBytes_None:
  assumes "addConfigBytesToExistingCluster env name configBytes w = (None, w')"
  shows "\<exists>k. map_of (configmaps w') (k, ''default'', nvkindClusterConfigName)
               = Some [(''config'', configBytes)]"
proof (cases "ClientConfig env (trace w) (''kind-'' @ name)")
  case (Inl err)
  with assms show ?thesis by (simp add: addConfigBytesToExistingCluster_def)
next
  case cc: (Inr csconfig)
  show ?thesis
  proof (cases "NewForConfig env csconfig")
    case (Inl err)
    with cc assms show ?thesis by (simp add: addConfigBytesToExistingCluster_def)
  next
    case (Inr k)
    let ?cm = "\<lparr>ObjectMeta_Name = nvkindClusterConfigName, Data = [(''config'', configBytes)]\<rparr>"
    obtain r w1 where
      run: "OnError DefaultRetry IsConflict (ConfigMaps_Create env k ''default'' ?cm) None w = (r, w1)"
      by (cases "OnError DefaultRetry IsConflict (ConfigMaps_Create env k ''default'' ?cm) None w")
        auto
    with cc Inr assms have "r = None" and "w1 = w'"
      by (auto simp: addConfigBytesToExistingCluster_def RetryOnConflict_def split: if_splits)
    with run OnError_Create_None [of DefaultRetry IsConflict env k "''default''" ?cm None w w']
    have "map_of (configmaps w') (k, ''default'', nvkindClusterConfigName)
            = Some [(''config'', configBytes)]"
      by (simp add: DefaultRetry_def)
    then show ?thesis by blast
  qed
qed

section \<open>The claims about node resolution\<close>

text \<open>
  C2 (as stated, refuted). With the live names \<open>w-1\<close>, \<open>cp-1\<close>, \<open>w-0\<close> and the
  declarations control-plane, worker, worker, \<^verbatim>\<open>GetNodes\<close> sorts the names to \<open>cp-1\<close>,
  \<open>w-0\<close>, \<open>w-1\<close> and then returns no nodes: \<open>cp-1\<close> without its digits is \<open>cp-\<close>,
  which ends in neither \<open>control-plane\<close> nor \<open>worker\<close>, so the call fails on that name.
\<close>

theorem C2_scenario_as_stated:
  "sort_Strings (Fields ''w-1\<newline>cp-1\<newline>w-0\<newline>'') = [''cp-1'', ''w-0'', ''w-1'']
   \<and> TrimRightFunc ''cp-1'' IsDigit = ''cp-''
   \<and> fst (GetNodes (live_env ''w-1\<newline>cp-1\<newline>w-0\<newline>'') (cluster_of three_nodes) empty_world)
       = Inl (New ''unable to determine node role from name: cp-1'')"
  by (simp add: GetNodes_def run_def live_env_def example_env_def answers_def get_nodes_k_def
        cluster_of_def three_nodes_def empty_world_def Fields_def asciiSpace_def
        sort_Strings_def TrimRightFunc_def IsDigit_def HasSuffix_def ControlPlaneRole_def
        WorkerRole_def)

text \<open>
  C2 (amended). With live names that carry the role tokens, \<open>k-worker2\<close>,
  \<open>k-control-plane\<close>, \<open>k-worker\<close>, and the same three declarations, \<^verbatim>\<open>GetNodes\<close>
  sorts the names to \<open>k-control-plane\<close>, \<open>k-worker\<close>, \<open>k-worker2\<close> and returns exactly
  three nodes: \<open>k-control-plane\<close> with the control-plane declaration first, then
  \<open>k-worker\<close> and \<open>k-worker2\<close> with the first and the second worker declaration.
\<close>

theorem C2_scenario_with_role_tokens:
  "sort_Strings (Fields ''k-worker2\<newline>k-control-plane\<newline>k-worker\<newline>'')
     = [''k-control-plane'', ''k-worker'', ''k-worker2'']
   \<and> (\<exists>nodes h.
         fst (GetNodes (live_env ''k-worker2\<newline>k-control-plane\<newline>k-worker\<newline>'')
                (cluster_of three_nodes) empty_world) = Inr (nodes, h)
         \<and> length nodes = 3
         \<and> map (\<lambda>n. (node_Name n, h ! node_config n)) nodes
             = [(''k-control-plane'', \<lparr>Role = ControlPlaneRole, NodeSpec = ''first''\<rparr>),
                (''k-worker'', \<lparr>Role = WorkerRole, NodeSpec = ''second''\<rparr>),
                (''k-worker2'', \<lparr>Role = WorkerRole, NodeSpec = ''third''\<rparr>)])"
  by (simp add: GetNodes_def run_def live_env_def example_env_def answers_def get_nodes_k_def
        cluster_of_def three_nodes_def empty_world_def Fields_def asciiSpace_def
        sort_Strings_def TrimRightFunc_def IsDigit_def HasSuffix_def ControlPlaneRole_def
        WorkerRole_def new_def DeepCopy_def)



text \<open>
  C5. Let \<^verbatim>\<open>kind get nodes\<close> have answered, every live name have a role and every
  declared node have one of the two roles. If the live control-plane names and the
  declared control-plane nodes differ in number, \<^verbatim>\<open>GetNodes\<close> fails with the mismatch
  error that names \<open>control-plane\<close>; if those agree and the numbers for \<open>worker\<close> differ,
  with the one that names \<open>worker\<close>. If both agree, it returns one node per live name and
  per declared node, neither fewer nor more; in particular a role with no live name and
  no declared node is accepted and contributes nothing.
\<close>

theorem C5_count_mismatch:
  fixes env c w outp
  defines "names \<equiv> sort_Strings (Fields outp)"
    and "decls \<equiv> elems (Nodes (cluster_config c))"
  assumes out: "command_result env
                  (trace w @ [Exec [''kind'', ''get'', ''nodes'', ''--name'', cluster_Name c] []])
                = Inr outp"
    and cls: "\<forall>n\<in>set names. HasSuffix (TrimRightFunc n IsDigit) ControlPlaneRole
                \<or> HasSuffix (TrimRightFunc n IsDigit) WorkerRole"
    and rls: "\<forall>v\<in>set decls. Role v = ControlPlaneRole \<or> Role v = WorkerRole"
  shows "(length (names_of_role ControlPlaneRole names)
            \<noteq> length (nodes_of_role ControlPlaneRole decls)
          \<longrightarrow> fst (GetNodes env c w)
                = Inl (New ''node names and configs mismatch for control-plane role''))
       \<and> (length (names_of_role ControlPlaneRole names)
            = length (nodes_of_role ControlPlaneRole decls)
          \<and> length (names_of_role WorkerRole names) \<noteq> length (nodes_of_role WorkerRole decls)
          \<longrightarrow> fst (GetNodes env c w)
                = Inl (New ''node names and configs mismatch for worker role''))
       \<and> (length (names_of_role ControlPlaneRole names)
            = length (nodes_of_role ControlPlaneRole decls)
          \<and> length (names_of_role WorkerRole names) = length (nodes_of_role WorkerRole decls)
          \<longrightarrow> (\<exists>nodes h. fst (GetNodes env c w) = Inr (nodes, h)
                  \<and> map node_Name nodes
                      = names_of_role ControlPlaneRole names @ names_of_role WorkerRole names
                  \<and> length nodes = length names
                  \<and> length nodes = length decls))
       \<and> (length (names_of_role ControlPlaneRole names)
            = length (nodes_of_role ControlPlaneRole decls)
          \<and> names_of_role WorkerRole names = [] \<and> nodes_of_role WorkerRole decls = []
          \<longrightarrow> (\<exists>nodes h. fst (GetNodes env c w) = Inr (nodes, h)
                  \<and> map node_Name nodes = names_of_role ControlPlaneRole names))"
proof -
  note cls' = cls [unfolded names_def]
  note rls' = rls [unfolded decls_def]
  have first: "fst (GetNodes env c w)
                 = Inl (New ''node names and configs mismatch for control-plane role'')"
    if "length (names_of_role ControlPlaneRole names)
          \<noteq> length (nodes_of_role ControlPlaneRole decls)"
    using GetNodes_mismatch_first [OF out cls' rls' that [unfolded names_def decls_def]]
    by (simp add: ControlPlaneRole_def)
  have second: "fst (GetNodes env c w)
                  = Inl (New ''node names and configs mismatch for worker role'')"
    if "length (names_of_role ControlPlaneRole names)
          = length (nodes_of_role ControlPlaneRole decls)"
      and "length (names_of_role WorkerRole names) \<noteq> length (nodes_of_role WorkerRole decls)"
    using GetNodes_mismatch_second [OF out cls' rls' that [unfolded names_def decls_def]]
    by (simp add: WorkerRole_def)
  have both: "\<exists>nodes h. fst (GetNodes env c w) = Inr (nodes, h)
                  \<and> map node_Name nodes
                      = names_of_role ControlPlaneRole names @ names_of_role WorkerRole names
                  \<and> length nodes = length names
                  \<and> length nodes = length decls"
    if eq: "length (names_of_role ControlPlaneRole names)
          = length (nodes_of_role ControlPlaneRole decls)"
      "length (names_of_role WorkerRole names) = length (nodes_of_role WorkerRole decls)"
  proof -
    from GetNodes_resolves [OF out cls' rls' eq [unfolded names_def decls_def]]
    obtain nodes where
      r: "fst (GetNodes env c w)
            = Inr (nodes, decls @ decls @ nodes_of_role ControlPlaneRole decls
                           @ nodes_of_role WorkerRole decls)"
      and nm: "map node_Name nodes
                 = names_of_role ControlPlaneRole names @ names_of_role WorkerRole names"
      unfolding names_def decls_def by blast
    have "length (map node_Name nodes) = length names"
      using nm names_split_length [OF cls] by simp
    then have ln: "length nodes = length names" by simp
    have "length names = length decls"
      using names_split_length [OF cls] nodes_split_length [OF rls] eq by simp
    with r nm ln show ?thesis by simp
  qed
  have absent: "\<exists>nodes h. fst (GetNodes env c w) = Inr (nodes, h)
                  \<and> map node_Name nodes = names_of_role ControlPlaneRole names"
    if "length (names_of_role ControlPlaneRole names)
          = length (nodes_of_role ControlPlaneRole decls)"
      and "names_of_role WorkerRole names = []" and "nodes_of_role WorkerRole decls = []"
    using both [OF that(1)] that(2,3) by auto
  from first second both absent show ?thesis by blast
qed

theorem C5_count_mismatch_witness:
  "length (names_of_role WorkerRole (sort_Strings (Fields printed_three))) = 2
   \<and> length (nodes_of_role WorkerRole (elems (Nodes (cluster_config (cluster_of two_nodes))))) = 1
   \<and> fst (GetNodes (live_env printed_three) (cluster_of two_nodes) empty_world)
       = Inl (New ''node names and configs mismatch for worker role'')"
proof -
  have out: "command_result (live_env printed_three)
     (trace empty_world
        @ [Exec [''kind'', ''get'', ''nodes'', ''--name'', cluster_Name (cluster_of two_nodes)] []])
     = Inr printed_three"
    by (simp add: live_env_def example_env_def answers_def get_nodes_k_def cluster_of_def
          empty_world_def)
  have names: "sort_Strings (Fields printed_three) = [''k-control-plane'', ''k-worker'', ''k-worker2'']"
    by (simp add: printed_three_def Fields_def asciiSpace_def sort_Strings_def)
  have cls: "\<forall>n\<in>set (sort_Strings (Fields printed_three)).
               HasSuffix (TrimRightFunc n IsDigit) ControlPlaneRole
               \<or> HasSuffix (TrimRightFunc n IsDigit) WorkerRole"
    unfolding names
    by (simp add: TrimRightFunc_def IsDigit_def HasSuffix_def ControlPlaneRole_def WorkerRole_def)
  have rls: "\<forall>v\<in>set (elems (Nodes (cluster_config (cluster_of two_nodes)))).
               Role v = ControlPlaneRole \<or> Role v = WorkerRole"
    by (simp add: cluster_of_def two_nodes_def ControlPlaneRole_def WorkerRole_def)
  have cp: "length (names_of_role ControlPlaneRole (sort_Strings (Fields printed_three)))
              = length (nodes_of_role ControlPlaneRole
                  (elems (Nodes (cluster_config (cluster_of two_nodes)))))"
    unfolding names
    by (simp add: TrimRightFunc_def IsDigit_def HasSuffix_def ControlPlaneRole_def
          cluster_of_def two_nodes_def)
  have wn: "length (names_of_role WorkerRole (sort_Strings (Fields printed_three))) = 2"
    unfolding names
    by (simp add: TrimRightFunc_def IsDigit_def HasSuffix_def WorkerRole_def)
  have wd: "length (nodes_of_role WorkerRole
              (elems (Nodes (cluster_config (cluster_of two_nodes))))) = 1"
    by (simp add: cluster_of_def two_nodes_def WorkerRole_def)
  from C5_count_mismatch [OF out cls rls] cp wn wd
  have "fst (GetNodes (live_env printed_three) (cluster_of two_nodes) empty_world)
          = Inl (New ''node names and configs mismatch for worker role'')"
    by simp
  with wn wd show ?thesis by simp
qed

text \<open>
  C6. Let \<^verbatim>\<open>kind get nodes\<close> have answered, every live name have a role, every declared
  node have one of the two roles, and the numbers agree for both roles. Then
  \<^verbatim>\<open>GetNodes\<close> returns nodes that, read through their addresses, are the sorted
  control-plane names zipped with the control-plane declarations in declaration order,
  followed by the sorted worker names zipped with the worker declarations. The address of
  every returned node lies beyond the configuration's own nodes (and beyond the loop
  variables), no two returned nodes share an address, the configuration's nodes are as
  they were, and overwriting any node of the configuration afterwards changes what no
  returned node reads.
\<close>

theorem C6_pairing_and_private_copies:
  fixes env c w outp
  defines "names \<equiv> sort_Strings (Fields outp)"
    and "decls \<equiv> elems (Nodes (cluster_config c))"
  assumes out: "command_result env
                  (trace w @ [Exec [''kind'', ''get'', ''nodes'', ''--name'', cluster_Name c] []])
                = Inr outp"
    and cls: "\<forall>n\<in>set names. HasSuffix (TrimRightFunc n IsDigit) ControlPlaneRole
                \<or> HasSuffix (TrimRightFunc n IsDigit) WorkerRole"
    and rls: "\<forall>v\<in>set decls. Role v = ControlPlaneRole \<or> Role v = WorkerRole"
    and cnt_cp: "length (names_of_role ControlPlaneRole names)
                   = length (nodes_of_role ControlPlaneRole decls)"
    and cnt_w: "length (names_of_role WorkerRole names) = length (nodes_of_role WorkerRole decls)"
  shows "\<exists>nodes h. fst (GetNodes env c w) = Inr (nodes, h)
           \<and> sorted (names_of_role ControlPlaneRole names)
           \<and> sorted (names_of_role WorkerRole names)
           \<and> map (\<lambda>n. (node_Name n, h ! node_config n)) nodes
               = zip (names_of_role ControlPlaneRole names) (nodes_of_role ControlPlaneRole decls)
                 @ zip (names_of_role WorkerRole names) (nodes_of_role WorkerRole decls)
           \<and> (\<forall>n\<in>set nodes. 2 * length decls \<le> node_config n \<and> node_config n < length h)
           \<and> distinct (map node_config nodes)
           \<and> take (length decls) h = decls
           \<and> (\<forall>i v. i < length decls
                 \<longrightarrow> map (\<lambda>n. (h[i := v]) ! node_config n) nodes
                     = map (\<lambda>n. h ! node_config n) nodes)"
proof -
  let ?cpn = "names_of_role ControlPlaneRole names" and ?wn = "names_of_role WorkerRole names"
  let ?cpd = "nodes_of_role ControlPlaneRole decls" and ?wd = "nodes_of_role WorkerRole decls"
  let ?h = "decls @ decls @ ?cpd @ ?wd"
  from GetNodes_resolves [OF out cls [unfolded names_def] rls [unfolded decls_def]
         cnt_cp [unfolded names_def decls_def] cnt_w [unfolded names_def decls_def]]
  obtain nodes where r: "fst (GetNodes env c w) = Inr (nodes, ?h)"
    and nm: "map node_Name nodes = ?cpn @ ?wn"
    and cf: "map node_config nodes = [2 * length decls..<2 * length decls + length names]"
    unfolding names_def decls_def by blast
  have total: "length names = length (?cpd @ ?wd)"
    using names_split_length [OF cls] cnt_cp cnt_w by simp
  have srt: "sorted ?cpn" "sorted ?wn"
    by (simp_all add: names_def sort_Strings_def sorted_wrt_filter)
  have "map ((!) ((decls @ decls) @ (?cpd @ ?wd)))
          [length (decls @ decls)..<length (decls @ decls) + length (?cpd @ ?wd)] = ?cpd @ ?wd"
    by (rule map_nth_offset)
  then have "map ((!) ?h) (map node_config nodes) = ?cpd @ ?wd"
    using cf total by (simp add: mult_2)
  then have rd: "map (\<lambda>n. ?h ! node_config n) nodes = ?cpd @ ?wd"
    by (simp add: comp_def)
  have "map (\<lambda>n. (node_Name n, ?h ! node_config n)) nodes
          = zip (map node_Name nodes) (map (\<lambda>n. ?h ! node_config n) nodes)"
    by (induction nodes) simp_all
  then have pairs: "map (\<lambda>n. (node_Name n, ?h ! node_config n)) nodes = zip ?cpn ?cpd @ zip ?wn ?wd"
    using nm rd cnt_cp by simp
  have mem: "node_config n \<in> set [2 * length decls..<2 * length decls + length names]"
    if "n \<in> set nodes" for n
    using that cf [symmetric] by simp
  have fresh: "\<forall>n\<in>set nodes. 2 * length decls \<le> node_config n \<and> node_config n < length ?h"
  proof
    fix n
    assume "n \<in> set nodes"
    from mem [OF this] have "2 * length decls \<le> node_config n"
      and "node_config n < 2 * length decls + length names"
      by simp_all
    with total show "2 * length decls \<le> node_config n \<and> node_config n < length ?h"
      by (simp add: mult_2)
  qed
  have dist: "distinct (map node_config nodes)"
    using cf by simp
  have keep: "take (length decls) ?h = decls"
    by simp
  have upd: "map (\<lambda>n. (?h[i := v]) ! node_config n) nodes = map (\<lambda>n. ?h ! node_config n) nodes"
    if "i < length decls" for i v
  proof (rule map_cong [OF refl])
    fix n
    assume "n \<in> set nodes"
    with fresh have "2 * length decls \<le> node_config n" by blast
    with that have "i \<noteq> node_config n" by simp
    then show "(?h[i := v]) ! node_config n = ?h ! node_config n" by simp
  qed
  from r srt pairs fresh dist keep upd show ?thesis by blast
qed

theorem C6_pairing_and_private_copies_witness:
  "\<exists>nodes h. fst (GetNodes (live_env printed_three) (cluster_of three_nodes) empty_world)
                = Inr (nodes, h)
     \<and> map (\<lambda>n. (node_Name n, h ! node_config n)) nodes
         = [(''k-control-plane'', \<lparr>Role = ''control-plane'', NodeSpec = ''first''\<rparr>),
            (''k-worker'', \<lparr>Role = ''worker'', NodeSpec = ''second''\<rparr>),
            (''k-worker2'', \<lparr>Role = ''worker'', NodeSpec = ''third''\<rparr>)]
     \<and> map (\<lambda>n. (h[1 := \<lparr>Role = ''worker'', NodeSpec = ''changed''\<rparr>]) ! node_config n) nodes
         = map (\<lambda>n. h ! node_config n) nodes"
proof -
  have out: "command_result (live_env printed_three)
     (trace empty_world
        @ [Exec [''kind'', ''get'', ''nodes'', ''--name'', cluster_Name (cluster_of three_nodes)] []])
     = Inr printed_three"
    by (simp add: live_env_def example_env_def answers_def get_nodes_k_def cluster_of_def
          empty_world_def)
  have names: "sort_Strings (Fields printed_three) = [''k-control-plane'', ''k-worker'', ''k-worker2'']"
    by (simp add: printed_three_def Fields_def asciiSpace_def sort_Strings_def)
  have decls: "elems (Nodes (cluster_config (cluster_of three_nodes))) = three_nodes"
    by (simp add: cluster_of_def)
  have cpn: "names_of_role ControlPlaneRole (sort_Strings (Fields printed_three))
               = [''k-control-plane'']"
    unfolding names
    by (simp add: TrimRightFunc_def IsDigit_def HasSuffix_def ControlPlaneRole_def)
  have wn: "names_of_role WorkerRole (sort_Strings (Fields printed_three))
              = [''k-worker'', ''k-worker2'']"
    unfolding names
    by (simp add: TrimRightFunc_def IsDigit_def HasSuffix_def WorkerRole_def)
  have cpd: "nodes_of_role ControlPlaneRole (elems (Nodes (cluster_config (cluster_of three_nodes))))
               = [\<lparr>Role = ''control-plane'', NodeSpec = ''first''\<rparr>]"
    unfolding decls by (simp add: three_nodes_def ControlPlaneRole_def)
  have wd: "nodes_of_role WorkerRole (elems (Nodes (cluster_config (cluster_of three_nodes))))
              = [\<lparr>Role = ''worker'', NodeSpec = ''second''\<rparr>,
                 \<lparr>Role = ''worker'', NodeSpec = ''third''\<rparr>]"
    unfolding decls by (simp add: three_nodes_def WorkerRole_def)
  have cls: "\<forall>n\<in>set (sort_Strings (Fields printed_three)).
               HasSuffix (TrimRightFunc n IsDigit) ControlPlaneRole
               \<or> HasSuffix (TrimRightFunc n IsDigit) WorkerRole"
    unfolding names
    by (simp add: TrimRightFunc_def IsDigit_def HasSuffix_def ControlPlaneRole_def WorkerRole_def)
  have rls: "\<forall>v\<in>set (elems (Nodes (cluster_config (cluster_of three_nodes)))).
               Role v = ControlPlaneRole \<or> Role v = WorkerRole"
    unfolding decls by (simp add: three_nodes_def ControlPlaneRole_def WorkerRole_def)
  have c1: "length (names_of_role ControlPlaneRole (sort_Strings (Fields printed_three)))
              = length (nodes_of_role ControlPlaneRole
                  (elems (Nodes (cluster_config (cluster_of three_nodes)))))"
    unfolding cpn cpd by simp
  have c2: "length (names_of_role WorkerRole (sort_Strings (Fields printed_three)))
              = length (nodes_of_role WorkerRole
                  (elems (Nodes (cluster_config (cluster_of three_nodes)))))"
    unfolding wn wd by simp
  have len: "(1::nat) < length (elems (Nodes (cluster_config (cluster_of three_nodes))))"
    unfolding decls by (simp add: three_nodes_def)
  from C6_pairing_and_private_copies [OF out cls rls c1 c2]
  obtain nodes h where
    r: "fst (GetNodes (live_env printed_three) (cluster_of three_nodes) empty_world) = Inr (nodes, h)"
    and p: "map (\<lambda>n. (node_Name n, h ! node_config n)) nodes
              = zip (names_of_role ControlPlaneRole (sort_Strings (Fields printed_three)))
                  (nodes_of_role ControlPlaneRole
                     (elems (Nodes (cluster_config (cluster_of three_nodes)))))
                @ zip (names_of_role WorkerRole (sort_Strings (Fields printed_three)))
                    (nodes_of_role WorkerRole
                       (elems (Nodes (cluster_config (cluster_of three_nodes)))))"
    and u: "\<forall>i v. i < length (elems (Nodes (cluster_config (cluster_of three_nodes))))
                 \<longrightarrow> map (\<lambda>n. (h[i := v]) ! node_config n) nodes
                     = map (\<lambda>n. h ! node_config n) nodes"
    by blast
  from p have p': "map (\<lambda>n. (node_Name n, h ! node_config n)) nodes
         = [(''k-control-plane'', \<lparr>Role = ''control-plane'', NodeSpec = ''first''\<rparr>),
            (''k-worker'', \<lparr>Role = ''worker'', NodeSpec = ''second''\<rparr>),
            (''k-worker2'', \<lparr>Role = ''worker'', NodeSpec = ''third''\<rparr>)]"
    unfolding cpn wn cpd wd by simp
  from u len have m: "map (\<lambda>n. (h[1 := \<lparr>Role = ''worker'', NodeSpec = ''changed''\<rparr>]) ! node_config n) nodes
         = map (\<lambda>n. h ! node_config n) nodes"
    by blast
  show ?thesis
    by (rule exI [of _ nodes], rule exI [of _ h]) (simp only: r p' m)
qed

section \<open>The claims about reconciliation\<close>

text \<open>
  C1 (as stated, refuted). The cluster \<open>k\<close> exists and its stored configuration is
  \<open>stored_doc\<close>. First, a caller's configuration that differs from it structurally (its
  name is \<open>other\<close>) is supplied together with the name \<open>k\<close>, and yet \<^verbatim>\<open>NewCluster\<close>
  returns a handle instead of the conflict error: \<^verbatim>\<open>setConfig\<close> first sets the name of
  the caller's configuration to \<open>k\<close>. Second, a caller's configuration named \<open>k\<close> that
  declares other nodes is supplied without a name: \<^verbatim>\<open>setConfig\<close> returns before it
  reads the store, \<^verbatim>\<open>NewCluster\<close> takes the name from the configuration, and the result
  is a handle for \<open>k\<close> with the differing configuration.
\<close>

theorem C1_renamed_config_is_accepted:
  "Cluster renamed_config \<noteq> stored_doc
   \<and> fst (NewCluster existing_env [set_name ''k'', set_config renamed_config] existing_world)
       = Inr \<lparr>cluster_Name = ''k'', cluster_config = stored_doc,
              cluster_kubeconfig = ''/home/user/.kube/config'',
              cluster_nvml = 0, cluster_stdout = 1, cluster_stderr = 2\<rparr>
   \<and> Cluster changed_config \<noteq> stored_doc
   \<and> fst (NewCluster existing_env [set_config changed_config] existing_world)
       = Inr \<lparr>cluster_Name = ''k'',
              cluster_config = \<lparr>Name = ''k'', Nodes = Some two_nodes,
                                ClusterSpec = ''networking''\<rparr>,
              cluster_kubeconfig = ''/home/user/.kube/config'',
              cluster_nvml = 0, cluster_stdout = 1, cluster_stderr = 2\<rparr>"
  by (simp add: NewCluster_def setConfig_def GetClusterNames_def run_def
        getConfigBytesFromExistingCluster_def ConfigMaps_Get_def map_index_def
        nvkindClusterConfigName_def existing_env_def example_env_def answers_def
        get_clusters_def existing_world_def stored_doc_def renamed_config_def
        changed_config_def two_nodes_def three_nodes_def
        set_name_def set_config_def Fields_def asciiSpace_def)

text \<open>
  C1 (amended). Let the options name a cluster (the name is then not empty) that exists,
  let its record be read and decode to \<open>c2\<close>, and let the caller's configuration, once
  its name is set to that of the options, differ from \<open>c2\<close>. Then \<^verbatim>\<open>NewCluster\<close> fails
  with the conflict error, wrapped once, and the only requests made are the listing of the
  clusters and the read of the record. Moreover \<^verbatim>\<open>NewCluster\<close> leaves the store as it
  was, whatever the options and whatever its result.
\<close>

theorem C1_conflict_after_naming:
  fixes env opts w
  defines "nm \<equiv> opt_name (apply_opts opts)"
  assumes cfg: "opt_config (apply_opts opts) = Some config"
    and lst: "command_result env (trace (listed w)) = Inr outp"
    and ex: "nm \<in> set (Fields outp)"
    and cc: "ClientConfig env (trace (listed w)) (''kind-'' @ nm) = Inr csconfig"
    and nf: "NewForConfig env csconfig = Inr k"
    and ok: "api_fault env
               (trace (listed w) @ [ConfigMapsGet k ''default'' nvkindClusterConfigName]) = None"
    and rec: "map_of (configmaps w) (k, ''default'', nvkindClusterConfigName) = Some d"
    and dec: "yaml_Unmarshal env (map_index d ''config'') = Inr c2"
    and ne: "(Cluster config)\<lparr>Name := nm\<rparr> \<noteq> c2"
  shows "fst (NewCluster env opts w)
           = Inl (Errorf ''setting config''
                    (Some (New ''cannot pass new config to existing cluster'')))
       \<and> nm \<noteq> []
       \<and> configmaps (snd (NewCluster env opts w)) = configmaps w
       \<and> trace (snd (NewCluster env opts w))
           = trace w @ [Exec [''kind'', ''get'', ''clusters'', ''-q''] [],
                        ConfigMapsGet k ''default'' nvkindClusterConfigName]
       \<and> (\<forall>env' opts' w'. configmaps (snd (NewCluster env' opts' w')) = configmaps w')"
proof -
  have rec': "map_of (configmaps (listed w)) (k, ''default'', nvkindClusterConfigName) = Some d"
    using rec by simp
  note rd = getConfigBytes_ok [OF cc [unfolded nm_def] nf ok rec']
  from ex Fields_nonempty [of outp] have named: "nm \<noteq> []" by auto
  from setConfig_existing [OF lst ex [unfolded nm_def] cfg rd dec] ne
  have "setConfig env (apply_opts opts) w
          = (Inl (New ''cannot pass new config to existing cluster''),
             (listed w)\<lparr>trace := trace (listed w)
                           @ [ConfigMapsGet k ''default'' nvkindClusterConfigName]\<rparr>)"
    by (auto simp: nm_def)
  then have "fst (NewCluster env opts w)
           = Inl (Errorf ''setting config''
                    (Some (New ''cannot pass new config to existing cluster'')))
       \<and> configmaps (snd (NewCluster env opts w)) = configmaps w
       \<and> trace (snd (NewCluster env opts w))
           = trace w @ [Exec [''kind'', ''get'', ''clusters'', ''-q''] [],
                        ConfigMapsGet k ''default'' nvkindClusterConfigName]"
    by (simp add: NewCluster_def)
  with named NewCluster_configmaps show ?thesis by blast
qed

theorem C1_conflict_after_naming_witness:
  "fst (NewCluster existing_env [set_name ''k'', set_config changed_config] existing_world)
     = Inl (Errorf ''setting config''
              (Some (New ''cannot pass new config to existing cluster'')))
   \<and> configmaps (snd (NewCluster existing_env [set_name ''k'', set_config changed_config]
                       existing_world))
       = configmaps existing_world"
proof -
  let ?opts = "[set_name ''k'', set_config changed_config]"
  have nm: "opt_name (apply_opts ?opts) = ''k''"
    by (simp add: set_name_def set_config_def)
  have cfg: "opt_config (apply_opts ?opts) = Some changed_config"
    by (simp add: set_name_def set_config_def)
  have lst: "command_result existing_env (trace (listed existing_world))
               = Inr ''other-cluster\<newline>k\<newline>''"
    by (simp add: existing_env_def example_env_def answers_def get_clusters_def
          existing_world_def)
  have ex: "opt_name (apply_opts ?opts) \<in> set (Fields ''other-cluster\<newline>k\<newline>'')"
    unfolding nm by (simp add: Fields_def asciiSpace_def)
  have cc: "ClientConfig existing_env (trace (listed existing_world))
              (''kind-'' @ opt_name (apply_opts ?opts)) = Inr 1"
    by (simp add: existing_env_def example_env_def)
  have nf: "NewForConfig existing_env 1 = Inr 1"
    by (simp add: existing_env_def example_env_def)
  have ok: "api_fault existing_env
              (trace (listed existing_world)
                 @ [ConfigMapsGet 1 ''default'' nvkindClusterConfigName]) = None"
    by (simp add: existing_env_def example_env_def)
  have rec: "map_of (configmaps existing_world) (1, ''default'', nvkindClusterConfigName)
               = Some [(''config'', ''{name: k, nodes: 3}'')]"
    by (simp add: existing_world_def nvkindClusterConfigName_def)
  have dec: "yaml_Unmarshal existing_env
               (map_index [(''config'', ''{name: k, nodes: 3}'')] ''config'') = Inr stored_doc"
    by (simp add: existing_env_def example_env_def map_index_def)
  have ne: "(Cluster changed_config)\<lparr>Name := opt_name (apply_opts ?opts)\<rparr> \<noteq> stored_doc"
    unfolding nm
    by (simp add: changed_config_def stored_doc_def two_nodes_def three_nodes_def)
  from C1_conflict_after_naming [OF cfg lst ex cc nf ok rec dec ne]
  show ?thesis by blast
qed

text \<open>
  C3 (as stated, refuted). The requested name is the empty string, no cluster of that
  name exists, and a configuration named \<open>other\<close> is supplied. \<^verbatim>\<open>NewCluster\<close> succeeds
  and adopts the configuration, but its name stays \<open>other\<close> and is not the requested
  name: \<^verbatim>\<open>setConfig\<close> sets the name only when the requested name is not empty.
\<close>

theorem C3_empty_name_is_not_forced:
  "[] \<notin> set (Fields ''other-cluster\<newline>'')
   \<and> fst (NewCluster no_cluster_env [set_name [], set_config renamed_config] empty_world)
       = Inr \<lparr>cluster_Name = ''other'',
              cluster_config = \<lparr>Name = ''other'', Nodes = Some three_nodes,
                                ClusterSpec = ''networking''\<rparr>,
              cluster_kubeconfig = ''/home/user/.kube/config'',
              cluster_nvml = 0, cluster_stdout = 1, cluster_stderr = 2\<rparr>"
  by (simp add: NewCluster_def setConfig_def GetClusterNames_def run_def
        no_cluster_env_def example_env_def answers_def get_clusters_def empty_world_def
        stored_doc_def renamed_config_def set_name_def set_config_def Fields_def asciiSpace_def)

text \<open>
  C3 (amended). Let a configuration be supplied and no cluster of the requested name
  exist. Then \<^verbatim>\<open>NewCluster\<close> succeeds after the listing of the clusters alone. If the
  requested name is not empty, the handle has that name and its configuration is the
  supplied one with the name field set to it, whatever the field held before; if it is
  empty, the configuration is adopted unchanged and the handle takes the configuration's
  name. Moreover, for a requested name that is not empty, \<^verbatim>\<open>setConfig\<close> as a whole (its
  comparison with a stored configuration included) does not depend on the name the
  supplied configuration came with.
\<close>

theorem C3_new_cluster_adopts_config:
  fixes env opts w
  defines "nm \<equiv> opt_name (apply_opts opts)"
  assumes cfg: "opt_config (apply_opts opts) = Some config"
    and lst: "command_result env (trace (listed w)) = Inr outp"
    and nex: "nm \<notin> set (Fields outp)"
  shows "NewCluster env opts w
           = (Inr \<lparr>cluster_Name = (if nm = [] then Name (Cluster config) else nm),
                   cluster_config =
                     (if nm = [] then Cluster config else (Cluster config)\<lparr>Name := nm\<rparr>),
                   cluster_kubeconfig =
                     (if opt_kubeconfig (apply_opts opts) = [] \<and> HomeDir env \<noteq> []
                      then HomeDir env @ ''/.kube/config''
                      else opt_kubeconfig (apply_opts opts)),
                   cluster_nvml = nvml config,
                   cluster_stdout = stdout config,
                   cluster_stderr = stderr config\<rparr>,
              listed w)
       \<and> (\<forall>o0 c x w'. opt_name o0 \<noteq> [] \<longrightarrow>
             setConfig env (o0\<lparr>opt_config := Some (c\<lparr>Cluster := (Cluster c)\<lparr>Name := x\<rparr>\<rparr>)\<rparr>) w'
               = setConfig env (o0\<lparr>opt_config := Some c\<rparr>) w')"
proof -
  from setConfig_new [OF lst nex [unfolded nm_def] cfg]
  have "NewCluster env opts w
           = (Inr \<lparr>cluster_Name = (if nm = [] then Name (Cluster config) else nm),
                   cluster_config =
                     (if nm = [] then Cluster config else (Cluster config)\<lparr>Name := nm\<rparr>),
                   cluster_kubeconfig =
                     (if opt_kubeconfig (apply_opts opts) = [] \<and> HomeDir env \<noteq> []
                      then HomeDir env @ ''/.kube/config''
                      else opt_kubeconfig (apply_opts opts)),
                   cluster_nvml = nvml config,
                   cluster_stdout = stdout config,
                   cluster_stderr = stderr config\<rparr>,
              listed w)"
    using cfg by (simp add: NewCluster_def Let_def nm_def)
  then show ?thesis using setConfig_name_irrelevant by blast
qed

theorem C3_new_cluster_adopts_config_witness:
  "NewCluster no_cluster_env [set_name ''k'', set_config renamed_config] empty_world
     = (Inr \<lparr>cluster_Name = ''k'',
             cluster_config = \<lparr>Name = ''k'', Nodes = Some three_nodes,
                               ClusterSpec = ''networking''\<rparr>,
             cluster_kubeconfig = ''/home/user/.kube/config'',
             cluster_nvml = 0, cluster_stdout = 1, cluster_stderr = 2\<rparr>,
        listed empty_world)"
proof -
  let ?opts = "[set_name ''k'', set_config renamed_config]"
  have nm: "opt_name (apply_opts ?opts) = ''k''"
    by (simp add: set_name_def set_config_def)
  have kc: "opt_kubeconfig (apply_opts ?opts) = []"
    by (simp add: set_name_def set_config_def)
  have cfg: "opt_config (apply_opts ?opts) = Some renamed_config"
    by (simp add: set_name_def set_config_def)
  have lst: "command_result no_cluster_env (trace (listed empty_world))
               = Inr ''other-cluster\<newline>''"
    by (simp add: no_cluster_env_def example_env_def answers_def get_clusters_def
          empty_world_def)
  have nex: "opt_name (apply_opts ?opts) \<notin> set (Fields ''other-cluster\<newline>'')"
    unfolding nm by (simp add: Fields_def asciiSpace_def)
  have home: "HomeDir no_cluster_env = ''/home/user''"
    by (simp add: no_cluster_env_def example_env_def)
  from C3_new_cluster_adopts_config [OF cfg lst nex]
  have "NewCluster no_cluster_env ?opts empty_world
          = (Inr \<lparr>cluster_Name = (if opt_name (apply_opts ?opts) = []
                                   then Name (Cluster renamed_config)
                                   else opt_name (apply_opts ?opts)),
                  cluster_config =
                    (if opt_name (apply_opts ?opts) = [] then Cluster renamed_config
                     else (Cluster renamed_config)\<lparr>Name := opt_name (apply_opts ?opts)\<rparr>),
                  cluster_kubeconfig =
                    (if opt_kubeconfig (apply_opts ?opts) = [] \<and> HomeDir no_cluster_env \<noteq> []
                     then HomeDir no_cluster_env @ ''/.kube/config''
                     else opt_kubeconfig (apply_opts ?opts)),
                  cluster_nvml = nvml renamed_config,
                  cluster_stdout = stdout renamed_config,
                  cluster_stderr = stderr renamed_config\<rparr>,
             listed empty_world)"
    by blast
  then show ?thesis
    unfolding nm kc home by (simp add: renamed_config_def stored_doc_def)
qed

text \<open>
  C7 (as stated, refuted). The cluster \<open>k\<close> exists and its record decodes to a
  configuration named \<open>old\<close>. The caller's configuration is structurally equal to the
  stored one, and yet \<^verbatim>\<open>NewCluster\<close> for \<open>k\<close> fails with the conflict error:
  \<^verbatim>\<open>setConfig\<close> sets the name of the caller's configuration to \<open>k\<close> before it compares.
\<close>

theorem C7_equal_config_with_other_name_conflicts:
  "Cluster misnamed_config = misnamed_doc
   \<and> yaml_Unmarshal misnamed_env (map_index [(''config'', ''{name: old, nodes: 3}'')] ''config'')
       = Inr misnamed_doc
   \<and> fst (NewCluster misnamed_env [set_name ''k'', set_config misnamed_config] misnamed_world)
       = Inl (Errorf ''setting config''
                (Some (New ''cannot pass new config to existing cluster'')))"
  by (simp add: NewCluster_def setConfig_def GetClusterNames_def run_def
        getConfigBytesFromExistingCluster_def ConfigMaps_Get_def map_index_def
        nvkindClusterConfigName_def misnamed_env_def example_env_def answers_def
        get_clusters_def misnamed_world_def misnamed_doc_def misnamed_config_def
        set_name_def set_config_def Fields_def asciiSpace_def)

text \<open>
  C7 (amended). Let the options name a cluster (the name is then not empty) that exists,
  let its record be read and decode to \<open>c2\<close>, and let the caller's configuration, once
  its name is set to that of the options, equal \<open>c2\<close>. Then \<^verbatim>\<open>NewCluster\<close> succeeds with
  the caller's configuration so named; the store is as it was, and the only requests made
  are the listing of the clusters and the read of the record. The comparison is the
  equality of the decoded document with the caller's document: only \<^verbatim>\<open>yaml.Unmarshal\<close>
  is applied to the stored bytes, and \<^verbatim>\<open>yaml.Marshal\<close> plays no part in
  \<^verbatim>\<open>NewCluster\<close>, so the stored bytes need not be the serialized form of the caller's
  document.
\<close>

theorem C7_equal_config_is_kept:
  fixes env opts w
  defines "nm \<equiv> opt_name (apply_opts opts)"
  assumes cfg: "opt_config (apply_opts opts) = Some config"
    and lst: "command_result env (trace (listed w)) = Inr outp"
    and ex: "nm \<in> set (Fields outp)"
    and cc: "ClientConfig env (trace (listed w)) (''kind-'' @ nm) = Inr csconfig"
    and nf: "NewForConfig env csconfig = Inr k"
    and ok: "api_fault env
               (trace (listed w) @ [ConfigMapsGet k ''default'' nvkindClusterConfigName]) = None"
    and rec: "map_of (configmaps w) (k, ''default'', nvkindClusterConfigName) = Some d"
    and dec: "yaml_Unmarshal env (map_index d ''config'') = Inr c2"
    and same: "(Cluster config)\<lparr>Name := nm\<rparr> = c2"
  shows "fst (NewCluster env opts w)
           = Inr \<lparr>cluster_Name = nm,
                  cluster_config = (Cluster config)\<lparr>Name := nm\<rparr>,
                  cluster_kubeconfig =
                    (if opt_kubeconfig (apply_opts opts) = [] \<and> HomeDir env \<noteq> []
                     then HomeDir env @ ''/.kube/config''
                     else opt_kubeconfig (apply_opts opts)),
                  cluster_nvml = nvml config,
                  cluster_stdout = stdout config,
                  cluster_stderr = stderr config\<rparr>
       \<and> nm \<noteq> []
       \<and> configmaps (snd (NewCluster env opts w)) = configmaps w
       \<and> trace (snd (NewCluster env opts w))
           = trace w @ [Exec [''kind'', ''get'', ''clusters'', ''-q''] [],
                        ConfigMapsGet k ''default'' nvkindClusterConfigName]
       \<and> (\<forall>marshal. NewCluster (env\<lparr>yaml_Marshal := marshal\<rparr>) opts w = NewCluster env opts w)"
proof -
  from ex Fields_nonempty [of outp] have named: "nm \<noteq> []" by auto
  from NewCluster_existing_equal
         [OF cfg lst ex [unfolded nm_def] cc [unfolded nm_def] nf ok rec dec
             same [unfolded nm_def]] same named
  show ?thesis by (simp add: nm_def NewCluster_ignores_Marshal)
qed

theorem C7_equal_config_is_kept_witness:
  "yaml_Marshal existing_env (Cluster same_config) = Inr ''name: k''
   \<and> map_index [(''config'', ''{name: k, nodes: 3}'')] ''config'' = ''{name: k, nodes: 3}''
   \<and> fst (NewCluster existing_env [set_name ''k'', set_config same_config] existing_world)
       = Inr \<lparr>cluster_Name = ''k'', cluster_config = stored_doc,
              cluster_kubeconfig = ''/home/user/.kube/config'',
              cluster_nvml = 0, cluster_stdout = 1, cluster_stderr = 2\<rparr>
   \<and> configmaps (snd (NewCluster existing_env [set_name ''k'', set_config same_config]
                       existing_world))
       = configmaps existing_world"
proof -
  let ?opts = "[set_name ''k'', set_config same_config]"
  have nm: "opt_name (apply_opts ?opts) = ''k''"
    by (simp add: set_name_def set_config_def)
  have kc: "opt_kubeconfig (apply_opts ?opts) = []"
    by (simp add: set_name_def set_config_def)
  have cfg: "opt_config (apply_opts ?opts) = Some same_config"
    by (simp add: set_name_def set_config_def)
  have lst: "command_result existing_env (trace (listed existing_world))
               = Inr ''other-cluster\<newline>k\<newline>''"
    by (simp add: existing_env_def example_env_def answers_def get_clusters_def
          existing_world_def)
  have ex: "opt_name (apply_opts ?opts) \<in> set (Fields ''other-cluster\<newline>k\<newline>'')"
    unfolding nm by (simp add: Fields_def asciiSpace_def)
  have cc: "ClientConfig existing_env (trace (listed existing_world))
              (''kind-'' @ opt_name (apply_opts ?opts)) = Inr 1"
    by (simp add: existing_env_def example_env_def)
  have nf: "NewForConfig existing_env 1 = Inr 1"
    by (simp add: existing_env_def example_env_def)
  have ok: "api_fault existing_env
              (trace (listed existing_world)
                 @ [ConfigMapsGet 1 ''default'' nvkindClusterConfigName]) = None"
    by (simp add: existing_env_def example_env_def)
  have rec: "map_of (configmaps existing_world) (1, ''default'', nvkindClusterConfigName)
               = Some [(''config'', ''{name: k, nodes: 3}'')]"
    by (simp add: existing_world_def nvkindClusterConfigName_def)
  have dec: "yaml_Unmarshal existing_env
               (map_index [(''config'', ''{name: k, nodes: 3}'')] ''config'') = Inr stored_doc"
    by (simp add: existing_env_def example_env_def map_index_def)
  have same: "(Cluster same_config)\<lparr>Name := opt_name (apply_opts ?opts)\<rparr> = stored_doc"
    unfolding nm by (simp add: same_config_def stored_doc_def)
  have home: "HomeDir existing_env = ''/home/user''"
    by (simp add: existing_env_def example_env_def)
  have ser: "yaml_Marshal existing_env (Cluster same_config) = Inr ''name: k''"
    by (simp add: existing_env_def example_env_def same_config_def stored_doc_def)
  have bytes: "map_index [(''config'', ''{name: k, nodes: 3}'')] ''config'' = ''{name: k, nodes: 3}''"
    by (simp add: map_index_def)
  from C7_equal_config_is_kept [OF cfg lst ex cc nf ok rec dec same]
  have "fst (NewCluster existing_env ?opts existing_world)
           = Inr \<lparr>cluster_Name = opt_name (apply_opts ?opts),
                  cluster_config = (Cluster same_config)\<lparr>Name := opt_name (apply_opts ?opts)\<rparr>,
                  cluster_kubeconfig =
                    (if opt_kubeconfig (apply_opts ?opts) = [] \<and> HomeDir existing_env \<noteq> []
                     then HomeDir existing_env @ ''/.kube/config''
                     else opt_kubeconfig (apply_opts ?opts)),
                  cluster_nvml = nvml same_config,
                  cluster_stdout = stdout same_config,
                  cluster_stderr = stderr same_config\<rparr>"
    and "configmaps (snd (NewCluster existing_env ?opts existing_world))
           = configmaps existing_world"
    by blast+
  then show ?thesis
    unfolding nm kc home using ser bytes by (simp add: same_config_def stored_doc_def)
qed

text \<open>
  C10. Let the cluster named by the options exist and its record be read, and let the
  record have no \<open>config\<close> key. Then the read returns the empty byte string and no error,
  and \<^verbatim>\<open>setConfig\<close> goes on with it: without a caller's configuration it hands the empty
  template to \<^verbatim>\<open>NewConfig\<close>, with one it decodes the empty byte string and compares. No
  error of \<^verbatim>\<open>setConfig\<close> comes from the missing key itself.
\<close>

theorem C10_missing_key_reads_empty:
  fixes env o0 w
  assumes lst: "command_result env (trace (listed w)) = Inr outp"
    and ex: "opt_name o0 \<in> set (Fields outp)"
    and cc: "ClientConfig env (trace (listed w)) (''kind-'' @ opt_name o0) = Inr csconfig"
    and nf: "NewForConfig env csconfig = Inr k"
    and ok: "api_fault env
               (trace (listed w) @ [ConfigMapsGet k ''default'' nvkindClusterConfigName]) = None"
    and rec: "map_of (configmaps w) (k, ''default'', nvkindClusterConfigName) = Some d"
    and nokey: "map_of d ''config'' = None"
  shows "fst (getConfigBytesFromExistingCluster env (opt_name o0) (listed w)) = Inr []
       \<and> fst (setConfig env o0 w)
           = (case opt_config o0 of
                None \<Rightarrow>
                  (case NewConfig env [WithConfigTemplate []] of
                     Inl err \<Rightarrow> Inl (Errorf ''creating new config'' (Some err))
                   | Inr config \<Rightarrow> Inr (o0\<lparr>opt_config := Some config\<rparr>))
              | Some config \<Rightarrow>
                  (case yaml_Unmarshal env [] of
                     Inl err \<Rightarrow> Inl (Errorf ''unmarshaling YAML'' (Some err))
                   | Inr existingConfig \<Rightarrow>
                       if existingConfig \<noteq> (Cluster config)\<lparr>Name := opt_name o0\<rparr>
                       then Inl (New ''cannot pass new config to existing cluster'')
                       else Inr (o0\<lparr>opt_config :=
                                      Some (config\<lparr>Cluster :=
                                              (Cluster config)\<lparr>Name := opt_name o0\<rparr>\<rparr>)\<rparr>)))"
proof -
  have rec': "map_of (configmaps (listed w)) (k, ''default'', nvkindClusterConfigName) = Some d"
    using rec by simp
  from nokey have empty: "map_index d ''config'' = []"
    by (simp add: map_index_def)
  note rd = getConfigBytes_ok [OF cc nf ok rec', unfolded empty]
  from ex Fields_nonempty [of outp] have ne: "opt_name o0 \<noteq> []" by auto
  have "fst (getConfigBytesFromExistingCluster env (opt_name o0) (listed w)) = Inr []"
    using rd by simp
  moreover have "fst (setConfig env o0 w)
           = (case opt_config o0 of
                None \<Rightarrow>
                  (case NewConfig env [WithConfigTemplate []] of
                     Inl err \<Rightarrow> Inl (Errorf ''creating new config'' (Some err))
                   | Inr config \<Rightarrow> Inr (o0\<lparr>opt_config := Some config\<rparr>))
              | Some config \<Rightarrow>
                  (case yaml_Unmarshal env [] of
                     Inl err \<Rightarrow> Inl (Errorf ''unmarshaling YAML'' (Some err))
                   | Inr existingConfig \<Rightarrow>
                       if existingConfig \<noteq> (Cluster config)\<lparr>Name := opt_name o0\<rparr>
                       then Inl (New ''cannot pass new config to existing cluster'')
                       else Inr (o0\<lparr>opt_config :=
                                      Some (config\<lparr>Cluster :=
                                              (Cluster config)\<lparr>Name := opt_name o0\<rparr>\<rparr>)\<rparr>)))"
    using lst ex ne rd
    by (simp add: setConfig_def GetClusterNames_Inr split: option.splits sum.splits)
  ultimately show ?thesis by blast
qed

theorem C10_missing_key_reads_empty_witness:
  "fst (getConfigBytesFromExistingCluster keyless_env ''k'' (listed keyless_world)) = Inr []
   \<and> fst (setConfig keyless_env
            \<lparr>opt_name = ''k'', opt_config = Some same_config, opt_kubeconfig = []\<rparr>
            keyless_world)
       = Inl (New ''cannot pass new config to existing cluster'')
   \<and> fst (setConfig keyless_env
            \<lparr>opt_name = ''k'', opt_config = None, opt_kubeconfig = []\<rparr> keyless_world)
       = Inl (Errorf ''creating new config'' (Some (External ''no template'')))"
proof -
  let ?o1 = "\<lparr>opt_name = ''k'', opt_config = Some same_config, opt_kubeconfig = []\<rparr>"
  let ?o2 = "\<lparr>opt_name = ''k'', opt_config = None, opt_kubeconfig = []\<rparr>"
  have lst: "command_result keyless_env (trace (listed keyless_world)) = Inr ''k\<newline>''"
    by (simp add: keyless_env_def example_env_def answers_def get_clusters_def
          keyless_world_def)
  have ex1: "opt_name ?o1 \<in> set (Fields ''k\<newline>'')"
    by (simp add: Fields_def asciiSpace_def)
  have ex2: "opt_name ?o2 \<in> set (Fields ''k\<newline>'')"
    by (simp add: Fields_def asciiSpace_def)
  have cc1: "ClientConfig keyless_env (trace (listed keyless_world)) (''kind-'' @ opt_name ?o1)
               = Inr 1"
    by (simp add: keyless_env_def example_env_def)
  have cc2: "ClientConfig keyless_env (trace (listed keyless_world)) (''kind-'' @ opt_name ?o2)
               = Inr 1"
    by (simp add: keyless_env_def example_env_def)
  have nf: "NewForConfig keyless_env 1 = Inr 1"
    by (simp add: keyless_env_def example_env_def)
  have ok: "api_fault keyless_env
              (trace (listed keyless_world)
                 @ [ConfigMapsGet 1 ''default'' nvkindClusterConfigName]) = None"
    by (simp add: keyless_env_def example_env_def)
  have rec: "map_of (configmaps keyless_world) (1, ''default'', nvkindClusterConfigName)
               = Some [(''owner'', ''nvkind'')]"
    by (simp add: keyless_world_def nvkindClusterConfigName_def)
  have nokey: "map_of [(''owner'', ''nvkind'')] ''config'' = None"
    by simp
  have dec: "yaml_Unmarshal keyless_env [] = Inr \<lparr>Name = [], Nodes = None, ClusterSpec = []\<rparr>"
    by (simp add: keyless_env_def example_env_def)
  have nc: "NewConfig keyless_env [WithConfigTemplate []] = Inl (External ''no template'')"
    by (simp add: keyless_env_def example_env_def)
  from C10_missing_key_reads_empty [OF lst ex1 cc1 nf ok rec nokey]
  have a: "fst (getConfigBytesFromExistingCluster keyless_env ''k'' (listed keyless_world)) = Inr []"
    and b: "fst (setConfig keyless_env ?o1 keyless_world)
              = Inl (New ''cannot pass new config to existing cluster'')"
    by (simp_all add: dec same_config_def stored_doc_def)
  from C10_missing_key_reads_empty [OF lst ex2 cc2 nf ok rec nokey]
  have c: "fst (setConfig keyless_env ?o2 keyless_world)
             = Inl (Errorf ''creating new config'' (Some (External ''no template'')))"
    by (simp add: nc)
  from a b c show ?thesis by blast
qed

section \<open>The claims about creation\<close>

text \<open>
  C8. \<^verbatim>\<open>Create\<close> runs \<^verbatim>\<open>kind create cluster\<close> with the serialized configuration on its
  standard input. If the serialization fails, nothing is requested at all. If the command
  fails, \<^verbatim>\<open>Create\<close> returns that error, wrapped once, and the command is the only request
  made: the store is as it was. In every case the requests that \<^verbatim>\<open>Create\<close> makes are the
  command followed by creations of the record, and the store differs from what it was only
  if the command succeeded. If \<^verbatim>\<open>Create\<close> returns no error, the command succeeded and the
  store holds the serialized configuration under the key \<open>config\<close> of the record.
  Conversely, if the command succeeds, the cluster's API is reached, no record exists yet
  and the API server accepts the creation, at once or after one answer of Conflict, then
  \<^verbatim>\<open>Create\<close> returns no error and the store is the old one extended by the record that
  holds the serialized configuration; the creation is requested after the command.
\<close>

theorem C8_record_written_after_creation:
  fixes env c opts w
  defines "o' \<equiv> fold (\<lambda>opt o'. opt o') opts \<lparr>retain = False, wait = 0\<rparr>"
  defines "command \<equiv>
     [''kind'', ''create'', ''cluster'', ''--name'', cluster_Name c, ''--config'', ''-'']
       @ (if retain o' then [''--retain''] else [])
       @ (if wait o' \<noteq> 0 then [''--wait'', Duration_String env (wait o')] else [])"
  shows "(\<forall>err. yaml_Marshal env (cluster_config c) = Inl err
            \<longrightarrow> Create env c opts w = (Some (Errorf ''marshaling YAML'' (Some err)), w))
       \<and> (\<forall>configBytes err.
             yaml_Marshal env (cluster_config c) = Inr configBytes
             \<and> command_result env (trace w @ [Exec command configBytes]) = Inl err
            \<longrightarrow> Create env c opts w
                  = (Some (Errorf ''executing command'' (Some err)),
                     w\<lparr>trace := trace w @ [Exec command configBytes]\<rparr>))
       \<and> (\<forall>configBytes. yaml_Marshal env (cluster_config c) = Inr configBytes
            \<longrightarrow> (\<exists>k m. trace (snd (Create env c opts w))
                          = trace w @ Exec command configBytes
                              # replicate m
                                  (ConfigMapsCreate k ''default''
                                     \<lparr>ObjectMeta_Name = nvkindClusterConfigName,
                                      Data = [(''config'', configBytes)]\<rparr>)))
       \<and> (configmaps (snd (Create env c opts w)) \<noteq> configmaps w
            \<longrightarrow> (\<exists>configBytes out.
                    yaml_Marshal env (cluster_config c) = Inr configBytes
                    \<and> command_result env (trace w @ [Exec command configBytes]) = Inr out))
       \<and> (\<forall>w'. Create env c opts w = (None, w')
            \<longrightarrow> (\<exists>configBytes out k.
                    yaml_Marshal env (cluster_config c) = Inr configBytes
                    \<and> command_result env (trace w @ [Exec command configBytes]) = Inr out
                    \<and> map_of (configmaps w') (k, ''default'', nvkindClusterConfigName)
                        = Some [(''config'', configBytes)]))
       \<and> (\<forall>configBytes out csconfig k.
             yaml_Marshal env (cluster_config c) = Inr configBytes
             \<and> command_result env (trace w @ [Exec command configBytes]) = Inr out
             \<and> ClientConfig env (trace w @ [Exec command configBytes])
                   (''kind-'' @ cluster_Name c) = Inr csconfig
             \<and> NewForConfig env csconfig = Inr k
             \<and> map_of (configmaps w) (k, ''default'', nvkindClusterConfigName) = None
             \<and> api_fault env
                   (trace w @ [Exec command configBytes,
                               ConfigMapsCreate k ''default''
                                 \<lparr>ObjectMeta_Name = nvkindClusterConfigName,
                                  Data = [(''config'', configBytes)]\<rparr>]) = None
            \<longrightarrow> Create env c opts w
                  = (None,
                     w\<lparr>configmaps :=
                          configmaps w
                            @ [((k, ''default'', nvkindClusterConfigName),
                                [(''config'', configBytes)])],
                        trace :=
                          trace w @ [Exec command configBytes,
                                     ConfigMapsCreate k ''default''
                                       \<lparr>ObjectMeta_Name = nvkindClusterConfigName,
                                        Data = [(''config'', configBytes)]\<rparr>]\<rparr>))
       \<and> (\<forall>configBytes out csconfig k err.
             yaml_Marshal env (cluster_config c) = Inr configBytes
             \<and> command_result env (trace w @ [Exec command configBytes]) = Inr out
             \<and> ClientConfig env (trace w @ [Exec command configBytes])
                   (''kind-'' @ cluster_Name c) = Inr csconfig
             \<and> NewForConfig env csconfig = Inr k
             \<and> map_of (configmaps w) (k, ''default'', nvkindClusterConfigName) = None
             \<and> api_fault env
                   (trace w @ [Exec command configBytes,
                               ConfigMapsCreate k ''default''
                                 \<lparr>ObjectMeta_Name = nvkindClusterConfigName,
                                  Data = [(''config'', configBytes)]\<rparr>]) = Some err
             \<and> IsConflict err
             \<and> api_fault env
                   (trace w @ [Exec command configBytes,
                               ConfigMapsCreate k ''default''
                                 \<lparr>ObjectMeta_Name = nvkindClusterConfigName,
                                  Data = [(''config'', configBytes)]\<rparr>,
                               ConfigMapsCreate k ''default''
                                 \<lparr>ObjectMeta_Name = nvkindClusterConfigName,
                                  Data = [(''config'', configBytes)]\<rparr>]) = None
            \<longrightarrow> Create env c opts w
                  = (None,
                     w\<lparr>configmaps :=
                          configmaps w
                            @ [((k, ''default'', nvkindClusterConfigName),
                                [(''config'', configBytes)])],
                        trace :=
                          trace w @ [Exec command configBytes,
                                     ConfigMapsCreate k ''default''
                                       \<lparr>ObjectMeta_Name = nvkindClusterConfigName,
                                        Data = [(''config'', configBytes)]\<rparr>,
                                     ConfigMapsCreate k ''default''
                                       \<lparr>ObjectMeta_Name = nvkindClusterConfigName,
                                        Data = [(''config'', configBytes)]\<rparr>]\<rparr>))"
proof -
  have cmd: "Create env c opts w
               = (case yaml_Marshal env (cluster_config c) of
                    Inl err \<Rightarrow> (Some (Errorf ''marshaling YAML'' (Some err)), w)
                  | Inr configBytes \<Rightarrow>
                      (case run env command configBytes w of
                         (Inl err, w') \<Rightarrow> (Some (Errorf ''executing command'' (Some err)), w')
                       | (Inr out, w') \<Rightarrow>
                           (case addConfigBytesToExistingCluster env (cluster_Name c)
                                   configBytes w' of
                              (Some err, w'') \<Rightarrow>
                                (Some (Errorf ''adding config to cluster'' (Some err)), w'')
                            | (None, w'') \<Rightarrow> (None, w''))))"
    by (auto simp: Create_def Let_def command_def o'_def
          split: sum.splits prod.splits option.splits)
  have a: "Create env c opts w = (Some (Errorf ''marshaling YAML'' (Some err)), w)"
    if "yaml_Marshal env (cluster_config c) = Inl err" for err
    using that by (simp add: cmd)
  have b: "Create env c opts w
             = (Some (Errorf ''executing command'' (Some err)),
                w\<lparr>trace := trace w @ [Exec command configBytes]\<rparr>)"
    if "yaml_Marshal env (cluster_config c) = Inr configBytes"
      and "command_result env (trace w @ [Exec command configBytes]) = Inl err"
    for configBytes err
    using that by (simp add: cmd run_def)
  have t: "\<exists>k m. trace (snd (Create env c opts w))
                  = trace w @ Exec command configBytes
                      # replicate m
                          (ConfigMapsCreate k ''default''
                             \<lparr>ObjectMeta_Name = nvkindClusterConfigName,
                              Data = [(''config'', configBytes)]\<rparr>)"
    if ser: "yaml_Marshal env (cluster_config c) = Inr configBytes" for configBytes
  proof (cases "command_result env (trace w @ [Exec command configBytes])")
    case (Inl err)
    from b [OF ser Inl]
    have "trace (snd (Create env c opts w))
            = trace w @ Exec command configBytes
                # replicate 0 (ConfigMapsCreate 0 ''default''
                     \<lparr>ObjectMeta_Name = nvkindClusterConfigName,
                      Data = [(''config'', configBytes)]\<rparr>)"
      by simp
    then show ?thesis by blast
  next
    case (Inr out)
    let ?w1 = "w\<lparr>trace := trace w @ [Exec command configBytes]\<rparr>"
    from addConfigBytes_trace [of env "cluster_Name c" configBytes ?w1]
    obtain k m where
      tr: "trace (snd (addConfigBytesToExistingCluster env (cluster_Name c) configBytes ?w1))
             = trace ?w1 @ replicate m
                 (ConfigMapsCreate k ''default''
                    \<lparr>ObjectMeta_Name = nvkindClusterConfigName,
                     Data = [(''config'', configBytes)]\<rparr>)"
      by blast
    have "snd (Create env c opts w)
            = snd (addConfigBytesToExistingCluster env (cluster_Name c) configBytes ?w1)"
      using ser Inr by (simp add: cmd run_def split: prod.splits option.splits)
    with tr have "trace (snd (Create env c opts w))
            = trace w @ Exec command configBytes
                # replicate m
                    (ConfigMapsCreate k ''default''
                       \<lparr>ObjectMeta_Name = nvkindClusterConfigName,
                        Data = [(''config'', configBytes)]\<rparr>)"
      by simp
    then show ?thesis by blast
  qed
  have d: "\<exists>configBytes out.
             yaml_Marshal env (cluster_config c) = Inr configBytes
             \<and> command_result env (trace w @ [Exec command configBytes]) = Inr out"
    if ch: "configmaps (snd (Create env c opts w)) \<noteq> configmaps w"
  proof (cases "yaml_Marshal env (cluster_config c)")
    case (Inl err)
    from a [OF this] ch show ?thesis by simp
  next
    case ser: (Inr configBytes)
    show ?thesis
    proof (cases "command_result env (trace w @ [Exec command configBytes])")
      case (Inl err)
      from b [OF ser this] ch show ?thesis by simp
    next
      case (Inr out)
      with ser show ?thesis by blast
    qed
  qed
  have e: "\<exists>configBytes out k.
             yaml_Marshal env (cluster_config c) = Inr configBytes
             \<and> command_result env (trace w @ [Exec command configBytes]) = Inr out
             \<and> map_of (configmaps w') (k, ''default'', nvkindClusterConfigName)
                 = Some [(''config'', configBytes)]"
    if fin: "Create env c opts w = (None, w')" for w'
  proof (cases "yaml_Marshal env (cluster_config c)")
    case (Inl err)
    from a [OF this] fin show ?thesis by simp
  next
    case ser: (Inr configBytes)
    show ?thesis
    proof (cases "command_result env (trace w @ [Exec command configBytes])")
      case (Inl err)
      from b [OF ser this] fin show ?thesis by simp
    next
      case (Inr out)
      let ?w1 = "w\<lparr>trace := trace w @ [Exec command configBytes]\<rparr>"
      from fin ser Inr
      have "addConfigBytesToExistingCluster env (cluster_Name c) configBytes ?w1 = (None, w')"
        by (simp add: cmd run_def split: prod.splits option.splits)
      from addConfigBytes_None [OF this] ser Inr show ?thesis by blast
    qed
  qed
  have retry: "RetryOnConflict DefaultRetry f w0
                 = (case f w0 of
                      (None, w1) \<Rightarrow> (None, w1)
                    | (Some err, w1) \<Rightarrow>
                        if IsConflict err
                        then (case f w1 of
                                (None, w2) \<Rightarrow> (None, w2)
                              | (Some err', w2) \<Rightarrow>
                                  if IsConflict err'
                                  then OnError 3 IsConflict f (Some err') w2
                                  else (Some err', w2))
                        else (Some err, w1))" for f w0
    by (simp add: RetryOnConflict_def DefaultRetry_def numeral_eq_Suc
          split: prod.splits option.splits)
  have s1: "Create env c opts w
              = (None,
                 w\<lparr>configmaps :=
                      configmaps w
                        @ [((k, ''default'', nvkindClusterConfigName), [(''config'', configBytes)])],
                    trace :=
                      trace w @ [Exec command configBytes,
                                 ConfigMapsCreate k ''default''
                                   \<lparr>ObjectMeta_Name = nvkindClusterConfigName,
                                    Data = [(''config'', configBytes)]\<rparr>]\<rparr>)"
    if "yaml_Marshal env (cluster_config c) = Inr configBytes"
      and "command_result env (trace w @ [Exec command configBytes]) = Inr out"
      and "ClientConfig env (trace w @ [Exec command configBytes])
             (''kind-'' @ cluster_Name c) = Inr csconfig"
      and "NewForConfig env csconfig = Inr k"
      and "map_of (configmaps w) (k, ''default'', nvkindClusterConfigName) = None"
      and "api_fault env
             (trace w @ [Exec command configBytes,
                         ConfigMapsCreate k ''default''
                           \<lparr>ObjectMeta_Name = nvkindClusterConfigName,
                            Data = [(''config'', configBytes)]\<rparr>]) = None"
    for configBytes out csconfig k
    using that
    by (simp add: cmd run_def addConfigBytesToExistingCluster_def retry
          ConfigMaps_Create_def Let_def)
  have s2: "Create env c opts w
              = (None,
                 w\<lparr>configmaps :=
                      configmaps w
                        @ [((k, ''default'', nvkindClusterConfigName), [(''config'', configBytes)])],
                    trace :=
                      trace w @ [Exec command configBytes,
                                 ConfigMapsCreate k ''default''
                                   \<lparr>ObjectMeta_Name = nvkindClusterConfigName,
                                    Data = [(''config'', configBytes)]\<rparr>,
                                 ConfigMapsCreate k ''default''
                                   \<lparr>ObjectMeta_Name = nvkindClusterConfigName,
                                    Data = [(''config'', configBytes)]\<rparr>]\<rparr>)"
    if "yaml_Marshal env (cluster_config c) = Inr configBytes"
      and "command_result env (trace w @ [Exec command configBytes]) = Inr out"
      and "ClientConfig env (trace w @ [Exec command configBytes])
             (''kind-'' @ cluster_Name c) = Inr csconfig"
      and "NewForConfig env csconfig = Inr k"
      and "map_of (configmaps w) (k, ''default'', nvkindClusterConfigName) = None"
      and "api_fault env
             (trace w @ [Exec command configBytes,
                         ConfigMapsCreate k ''default''
                           \<lparr>ObjectMeta_Name = nvkindClusterConfigName,
                            Data = [(''config'', configBytes)]\<rparr>]) = Some err"
      and "IsConflict err"
      and "api_fault env
             (trace w @ [Exec command configBytes,
                         ConfigMapsCreate k ''default''
                           \<lparr>ObjectMeta_Name = nvkindClusterConfigName,
                            Data = [(''config'', configBytes)]\<rparr>,
                         ConfigMapsCreate k ''default''
                           \<lparr>ObjectMeta_Name = nvkindClusterConfigName,
                            Data = [(''config'', configBytes)]\<rparr>]) = None"
    for configBytes out csconfig k err
    using that
    by (simp add: cmd run_def addConfigBytesToExistingCluster_def retry
          ConfigMaps_Create_def Let_def)
  from a b t d e s1 s2 show ?thesis by blast
qed

theorem C8_record_written_after_creation_witness:
  "Create failing_create_env (cluster_of three_nodes) [] empty_world
     = (Some (Errorf ''executing command'' (Some (External ''exit status 1''))),
        \<lparr>configmaps = [],
         trace = [Exec [''kind'', ''create'', ''cluster'', ''--name'', ''k'', ''--config'', ''-'']
                    ''name: k'']\<rparr>)
   \<and> Create created_env (cluster_of three_nodes) [] empty_world
       = (None,
          \<lparr>configmaps = [((1, ''default'', ''nvkind-cluster-config''), [(''config'', ''name: k'')])],
           trace = [Exec [''kind'', ''create'', ''cluster'', ''--name'', ''k'', ''--config'', ''-'']
                      ''name: k'',
                    ConfigMapsCreate 1 ''default''
                      \<lparr>ObjectMeta_Name = ''nvkind-cluster-config'',
                       Data = [(''config'', ''name: k'')]\<rparr>]\<rparr>)
   \<and> Create conflict_once_env (cluster_of three_nodes) [] empty_world
       = (None,
          \<lparr>configmaps = [((1, ''default'', ''nvkind-cluster-config''), [(''config'', ''name: k'')])],
           trace = [Exec [''kind'', ''create'', ''cluster'', ''--name'', ''k'', ''--config'', ''-'']
                      ''name: k'',
                    ConfigMapsCreate 1 ''default''
                      \<lparr>ObjectMeta_Name = ''nvkind-cluster-config'',
                       Data = [(''config'', ''name: k'')]\<rparr>,
                    ConfigMapsCreate 1 ''default''
                      \<lparr>ObjectMeta_Name = ''nvkind-cluster-config'',
                       Data = [(''config'', ''name: k'')]\<rparr>]\<rparr>)"
proof -
  let ?cm = "\<lparr>ObjectMeta_Name = nvkindClusterConfigName, Data = [(''config'', ''name: k'')]\<rparr>"
  have cmd: "[''kind'', ''create'', ''cluster'', ''--name'', cluster_Name (cluster_of three_nodes),
               ''--config'', ''-'']
              @ (if retain (fold (\<lambda>opt o'. opt o') [] \<lparr>retain = False, wait = 0\<rparr>)
                 then [''--retain''] else [])
              @ (if wait (fold (\<lambda>opt o'. opt o') [] \<lparr>retain = False, wait = 0\<rparr>) \<noteq> 0
                 then [''--wait'', Duration_String env0
                         (wait (fold (\<lambda>opt o'. opt o') [] \<lparr>retain = False, wait = 0\<rparr>))]
                 else [])
             = create_k" for env0
    by (simp add: cluster_of_def create_k_def)
  have nm: "cluster_Name (cluster_of three_nodes) = ''k''"
    by (simp add: cluster_of_def)
  have free: "map_of (configmaps empty_world) (1, ''default'', nvkindClusterConfigName) = None"
    by (simp add: empty_world_def)
  have ser1: "yaml_Marshal failing_create_env (cluster_config (cluster_of three_nodes))
                = Inr ''name: k''"
    by (simp add: failing_create_env_def example_env_def cluster_of_def)
  have fails: "command_result failing_create_env (trace empty_world @ [Exec create_k ''name: k''])
                 = Inl (External ''exit status 1'')"
    by (simp add: failing_create_env_def example_env_def answers_def empty_world_def)
  from C8_record_written_after_creation
         [of failing_create_env "cluster_of three_nodes" "[]" empty_world]
  have one: "Create failing_create_env (cluster_of three_nodes) [] empty_world
          = (Some (Errorf ''executing command'' (Some (External ''exit status 1''))),
             empty_world\<lparr>trace := trace empty_world @ [Exec create_k ''name: k'']\<rparr>)"
    unfolding cmd using ser1 fails by blast
  have ser2: "yaml_Marshal created_env (cluster_config (cluster_of three_nodes)) = Inr ''name: k''"
    by (simp add: created_env_def example_env_def cluster_of_def)
  have runs2: "command_result created_env (trace empty_world @ [Exec create_k ''name: k''])
                 = Inr ''Creating cluster k ...''"
    by (simp add: created_env_def example_env_def answers_def empty_world_def)
  have cc2: "ClientConfig created_env (trace empty_world @ [Exec create_k ''name: k''])
               (''kind-'' @ cluster_Name (cluster_of three_nodes)) = Inr 1"
    by (simp add: created_env_def example_env_def)
  have nf2: "NewForConfig created_env 1 = Inr 1"
    by (simp add: created_env_def example_env_def)
  have ok2: "api_fault created_env
               (trace empty_world
                  @ [Exec create_k ''name: k'', ConfigMapsCreate 1 ''default'' ?cm]) = None"
    by (simp add: created_env_def example_env_def)
  from C8_record_written_after_creation
         [of created_env "cluster_of three_nodes" "[]" empty_world]
  have two: "Create created_env (cluster_of three_nodes) [] empty_world
          = (None,
             empty_world\<lparr>configmaps :=
                            configmaps empty_world
                              @ [((1, ''default'', nvkindClusterConfigName),
                                  [(''config'', ''name: k'')])],
                          trace :=
                            trace empty_world
                              @ [Exec create_k ''name: k'',
                                 ConfigMapsCreate 1 ''default'' ?cm]\<rparr>)"
    unfolding cmd using ser2 runs2 cc2 nf2 free ok2 by blast
  have ser3: "yaml_Marshal conflict_once_env (cluster_config (cluster_of three_nodes))
                = Inr ''name: k''"
    by (simp add: conflict_once_env_def created_env_def example_env_def cluster_of_def)
  have runs3: "command_result conflict_once_env (trace empty_world @ [Exec create_k ''name: k''])
                 = Inr ''Creating cluster k ...''"
    by (simp add: conflict_once_env_def created_env_def example_env_def answers_def
          empty_world_def)
  have cc3: "ClientConfig conflict_once_env (trace empty_world @ [Exec create_k ''name: k''])
               (''kind-'' @ cluster_Name (cluster_of three_nodes)) = Inr 1"
    by (simp add: conflict_once_env_def created_env_def example_env_def)
  have nf3: "NewForConfig conflict_once_env 1 = Inr 1"
    by (simp add: conflict_once_env_def created_env_def example_env_def)
  have first3: "api_fault conflict_once_env
               (trace empty_world
                  @ [Exec create_k ''name: k'', ConfigMapsCreate 1 ''default'' ?cm])
               = Some (StatusError Conflict)"
    by (simp add: conflict_once_env_def empty_world_def)
  have conflict: "IsConflict (StatusError Conflict)"
    by (simp add: IsConflict_def)
  have second3: "api_fault conflict_once_env
               (trace empty_world
                  @ [Exec create_k ''name: k'', ConfigMapsCreate 1 ''default'' ?cm,
                     ConfigMapsCreate 1 ''default'' ?cm]) = None"
    by (simp add: conflict_once_env_def empty_world_def)
  from C8_record_written_after_creation
         [of conflict_once_env "cluster_of three_nodes" "[]" empty_world]
  have three: "Create conflict_once_env (cluster_of three_nodes) [] empty_world
          = (None,
             empty_world\<lparr>configmaps :=
                            configmaps empty_world
                              @ [((1, ''default'', nvkindClusterConfigName),
                                  [(''config'', ''name: k'')])],
                          trace :=
                            trace empty_world
                              @ [Exec create_k ''name: k'',
                                 ConfigMapsCreate 1 ''default'' ?cm,
                                 ConfigMapsCreate 1 ''default'' ?cm]\<rparr>)"
    unfolding cmd using ser3 runs3 cc3 nf3 free first3 conflict second3 by blast
  from one two three show ?thesis
    by (simp add: empty_world_def create_k_def nvkindClusterConfigName_def)
qed

text \<open>
  C9 (the code drops the cause). \<^verbatim>\<open>kind create cluster\<close> has succeeded and the write of
  the record fails: in the first environment the API server answers every creation with
  the status Unavailable, in the second with Conflict, so that the five attempts of
  \<^verbatim>\<open>retry.DefaultRetry\<close> are used up. In both, \<^verbatim>\<open>Create\<close> returns an error with the
  contexts \<open>adding config to cluster\<close> and \<open>writing configmap\<close> that wraps nil: its text
  ends in \<^verbatim>\<open>%!w(<nil>)\<close> and the store's error is not in its chain.
\<close>

theorem C9_store_failure_is_not_carried:
  "fst (Create (failing_store_env (StatusError Unavailable)) (cluster_of three_nodes) []
          empty_world)
     = Some (Errorf ''adding config to cluster'' (Some (Errorf ''writing configmap'' None)))
   \<and> fst (Create (failing_store_env (StatusError Conflict)) (cluster_of three_nodes) []
            empty_world)
       = Some (Errorf ''adding config to cluster'' (Some (Errorf ''writing configmap'' None)))
   \<and> length (trace (snd (Create (failing_store_env (StatusError Conflict))
                            (cluster_of three_nodes) [] empty_world))) = 6
   \<and> chain (Errorf ''adding config to cluster'' (Some (Errorf ''writing configmap'' None)))
       = [Errorf ''adding config to cluster'' (Some (Errorf ''writing configmap'' None)),
          Errorf ''writing configmap'' None]
   \<and> StatusError Unavailable
       \<notin> set (chain (Errorf ''adding config to cluster''
                       (Some (Errorf ''writing configmap'' None))))
   \<and> StatusError Conflict
       \<notin> set (chain (Errorf ''adding config to cluster''
                       (Some (Errorf ''writing configmap'' None))))
   \<and> Error (Errorf ''adding config to cluster'' (Some (Errorf ''writing configmap'' None)))
       = ''adding config to cluster: writing configmap: %!w(<nil>)''"
proof -
  have one: "OnError 5 IsConflict f None w
               = (case f w of
                    (None, w') \<Rightarrow> (None, w')
                  | (Some err, w') \<Rightarrow>
                      if IsConflict err then OnError 4 IsConflict f (Some err) w'
                      else (Some err, w'))" for f w
    using OnError.simps(2) [of 4 IsConflict f None w] by simp
  have more: "OnError 4 IsConflict f e0 w
               = (case f w of
                    (None, w') \<Rightarrow> (None, w')
                  | (Some err, w') \<Rightarrow>
                      if IsConflict err
                      then (case f w' of
                              (None, w') \<Rightarrow> (None, w')
                            | (Some err, w') \<Rightarrow>
                                if IsConflict err
                                then (case f w' of
                                        (None, w') \<Rightarrow> (None, w')
                                      | (Some err, w') \<Rightarrow>
                                          if IsConflict err
                                          then (case f w' of
                                                  (None, w') \<Rightarrow> (None, w')
                                                | (Some err, w') \<Rightarrow> (Some err, w'))
                                          else (Some err, w'))
                                else (Some err, w'))
                      else (Some err, w'))" for f e0 w
    by (simp add: numeral_eq_Suc split: prod.splits option.splits)
  have u: "fst (Create (failing_store_env (StatusError Unavailable)) (cluster_of three_nodes) []
                  empty_world)
             = Some (Errorf ''adding config to cluster'' (Some (Errorf ''writing configmap'' None)))"
    by (simp add: Create_def run_def addConfigBytesToExistingCluster_def RetryOnConflict_def
          DefaultRetry_def one ConfigMaps_Create_def IsConflict_def failing_store_env_def
          example_env_def answers_def create_k_def cluster_of_def empty_world_def Let_def)
  have c: "Create (failing_store_env (StatusError Conflict)) (cluster_of three_nodes) []
             empty_world
           = (Some (Errorf ''adding config to cluster'' (Some (Errorf ''writing configmap'' None))),
              \<lparr>configmaps = [],
               trace = Exec create_k ''name: k''
                 # replicate 5 (ConfigMapsCreate 1 ''default''
                     \<lparr>ObjectMeta_Name = nvkindClusterConfigName,
                      Data = [(''config'', ''name: k'')]\<rparr>)\<rparr>)"
    by (simp add: Create_def run_def addConfigBytesToExistingCluster_def RetryOnConflict_def
          DefaultRetry_def one more ConfigMaps_Create_def IsConflict_def failing_store_env_def
          example_env_def answers_def create_k_def cluster_of_def empty_world_def
          numeral_eq_Suc Let_def)
  from u c show ?thesis by simp
qed

end
